theory Spec2Isabelle
  imports Complex_Main
begin

section \<open>Floating-point values\<close>

text \<open>
  The scripts compute on numpy/pandas float64 data.  A value is modelled as a finite
  real, one of the two infinities, or not-a-number; pandas uses not-a-number for a
  missing cell.  Finite arithmetic is exact: rounding, overflow to infinity and the
  sign of zero are outside the model.
\<close>

datatype fval = Fin real | PInf | NInf | NaN

fun fneg :: "fval \<Rightarrow> fval" where
  "fneg (Fin x) = Fin (- x)"
| "fneg PInf = NInf"
| "fneg NInf = PInf"
| "fneg NaN = NaN"

fun fadd :: "fval \<Rightarrow> fval \<Rightarrow> fval" where
  "fadd NaN _ = NaN"
| "fadd _ NaN = NaN"
| "fadd (Fin x) (Fin y) = Fin (x + y)"
| "fadd (Fin _) PInf = PInf"
| "fadd (Fin _) NInf = NInf"
| "fadd PInf (Fin _) = PInf"
| "fadd NInf (Fin _) = NInf"
| "fadd PInf PInf = PInf"
| "fadd NInf NInf = NInf"
| "fadd PInf NInf = NaN"
| "fadd NInf PInf = NaN"

definition fsub :: "fval \<Rightarrow> fval \<Rightarrow> fval" where
  "fsub x y = fadd x (fneg y)"

text \<open>The infinity with the sign of a non-zero finite factor, or of its opposite.\<close>

definition inf_of_sign :: "real \<Rightarrow> fval" where
  "inf_of_sign s = (if s = 0 then NaN else if 0 < s then PInf else NInf)"

fun fmul :: "fval \<Rightarrow> fval \<Rightarrow> fval" where
  "fmul NaN _ = NaN"
| "fmul _ NaN = NaN"
| "fmul (Fin x) (Fin y) = Fin (x * y)"
| "fmul (Fin x) PInf = inf_of_sign x"
| "fmul (Fin x) NInf = inf_of_sign (- x)"
| "fmul PInf (Fin y) = inf_of_sign y"
| "fmul NInf (Fin y) = inf_of_sign (- y)"
| "fmul PInf PInf = PInf"
| "fmul NInf NInf = PInf"
| "fmul PInf NInf = NInf"
| "fmul NInf PInf = NInf"

text \<open>\<^verbatim>\<open>np.log\<close>: minus infinity at zero, not-a-number below zero.\<close>

fun flog :: "fval \<Rightarrow> fval" where
  "flog (Fin x) = (if 0 < x then Fin (ln x) else if x = 0 then NInf else NaN)"
| "flog PInf = PInf"
| "flog NInf = NaN"
| "flog NaN = NaN"

text \<open>
  \<^verbatim>\<open>x ** y\<close> on floats is the C library's \<^verbatim>\<open>pow\<close>: a zero exponent and a base of one
  give one even beside a not-a-number; a negative base needs an integral exponent.
\<close>

definition is_integral :: "real \<Rightarrow> bool" where
  "is_integral y = (y = of_int \<lfloor>y\<rfloor>)"

definition is_odd_integral :: "real \<Rightarrow> bool" where
  "is_odd_integral y = (is_integral y \<and> odd \<lfloor>y\<rfloor>)"

fun fpow_cases :: "fval \<Rightarrow> fval \<Rightarrow> fval" where
  "fpow_cases NaN _ = NaN"
| "fpow_cases _ NaN = NaN"
| "fpow_cases (Fin x) (Fin y) =
     (if 0 < x then Fin (x powr y)
      else if x = 0 then (if 0 < y then Fin 0 else PInf)
      else if is_integral y then Fin (x powi \<lfloor>y\<rfloor>)
      else NaN)"
| "fpow_cases (Fin x) PInf =
     (if \<bar>x\<bar> < 1 then Fin 0 else if 1 < \<bar>x\<bar> then PInf else Fin 1)"
| "fpow_cases (Fin x) NInf =
     (if \<bar>x\<bar> < 1 then PInf else if 1 < \<bar>x\<bar> then Fin 0 else Fin 1)"
| "fpow_cases PInf (Fin y) = (if 0 < y then PInf else Fin 0)"
| "fpow_cases PInf PInf = PInf"
| "fpow_cases PInf NInf = Fin 0"
| "fpow_cases NInf (Fin y) =
     (if 0 < y then (if is_odd_integral y then NInf else PInf) else Fin 0)"
| "fpow_cases NInf PInf = PInf"
| "fpow_cases NInf NInf = Fin 0"

definition fpow :: "fval \<Rightarrow> fval \<Rightarrow> fval" where
  "fpow x y = (if y = Fin 0 then Fin 1 else if x = Fin 1 then Fin 1 else fpow_cases x y)"

text \<open>Unary plus, the identity on floats.\<close>

definition fpos :: "fval \<Rightarrow> fval" where
  "fpos x = x"

text \<open>Division of a float by a positive count, as in a mean.\<close>

fun fdiv_count :: "fval \<Rightarrow> nat \<Rightarrow> fval" where
  "fdiv_count (Fin x) n = Fin (x / real n)"
| "fdiv_count PInf n = PInf"
| "fdiv_count NInf n = NInf"
| "fdiv_count NaN n = NaN"

fun the_fin :: "fval \<Rightarrow> real" where
  "the_fin (Fin x) = x"
| "the_fin _ = 0"

fun is_fin :: "fval \<Rightarrow> bool" where
  "is_fin (Fin _) = True"
| "is_fin _ = False"

section \<open>Correction formulas of the 2016 calibration (\<^verbatim>\<open>pic2_fullcal.py\<close>)\<close>

text \<open>
  \<^verbatim>\<open>qdep_correction(logq, a, b) = a*(np.log(50000)-logq)**b\<close>, on one sample.
\<close>

definition qdep_correction :: "fval \<Rightarrow> fval \<Rightarrow> fval \<Rightarrow> fval" where
  "qdep_correction logq a b = fmul a (fpow (fsub (Fin (ln 50000)) logq) b)"

text \<open>
  \<^verbatim>\<open>q_dep_cal(deltavals, qvals, a, b)\<close> on one sample: the correction is computed from
  \<^verbatim>\<open>np.log(qvals)\<close> and subtracted.
\<close>

definition q_dep_cal :: "fval \<Rightarrow> fval \<Rightarrow> fval \<Rightarrow> fval \<Rightarrow> fval" where
  "q_dep_cal deltaval qval a b =
     (let correction = qdep_correction (flog qval) a b in fsub deltaval correction)"

text \<open>\<^verbatim>\<open>abscal_line(x, m, k) = m*x + k\<close>.\<close>

definition abscal_line :: "fval \<Rightarrow> fval \<Rightarrow> fval \<Rightarrow> fval" where
  "abscal_line x m k = fadd (fmul m x) k"

section \<open>Errors, data frames and the file store\<close>

datatype key = StrKey string | IntKey int

datatype error =
    KeyError key
  | FileNotFoundError string
  | UnboundLocalError string
  | NameError string
  | IndexError
  | ValueError
  | MissingDataError
  | LibraryError string

definition ebind :: "error + 'a \<Rightarrow> ('a \<Rightarrow> error + 'b) \<Rightarrow> error + 'b" where
  "ebind m f = (case m of Inl e \<Rightarrow> Inl e | Inr x \<Rightarrow> f x)"

text \<open>
  A pandas Series is the list of its values, a DataFrame the map from column names to
  columns.  In pandas the columns of one frame have the same length; where a property
  needs it, it is a hypothesis.  A dictionary of coefficients is a map from names to
  floats.
\<close>

type_synonym series = "fval list"
type_synonym dataframe = "string \<rightharpoonup> series"
type_synonym coeffs = "string \<rightharpoonup> fval"

text \<open>\<^verbatim>\<open>data[c]\<close> and \<^verbatim>\<open>p[c]\<close>: a missing key raises.\<close>

definition getitem :: "(string \<rightharpoonup> 'a) \<Rightarrow> string \<Rightarrow> error + 'a" where
  "getitem m c = (case m c of None \<Rightarrow> Inl (KeyError (StrKey c)) | Some v \<Rightarrow> Inr v)"

text \<open>\<^verbatim>\<open>dict(params.loc[year])\<close> on a table indexed by year.\<close>

definition loc :: "(int \<rightharpoonup> coeffs) \<Rightarrow> int \<Rightarrow> error + coeffs" where
  "loc table year = (case table year of None \<Rightarrow> Inl (KeyError (IntKey year)) | Some p \<Rightarrow> Inr p)"

text \<open>\<^verbatim>\<open>data.replace(-9999, np.nan, inplace=True)\<close>, over every column.\<close>

definition replace_flag :: "fval \<Rightarrow> fval" where
  "replace_flag v = (if v = Fin (- 9999) then NaN else v)"

definition replace_missing :: "dataframe \<Rightarrow> dataframe" where
  "replace_missing data = (\<lambda>c. map_option (map replace_flag) (data c))"

text \<open>
  \<^verbatim>\<open>pd.read_csv(path)\<close> reads from a store of parsed input files; the output directory
  is a separate store, written by \<^verbatim>\<open>to_csv\<close>.  \<^verbatim>\<open>print(date)\<close> appends to a log.
\<close>

type_synonym filestore = "string \<rightharpoonup> dataframe"

definition read_csv :: "filestore \<Rightarrow> string \<Rightarrow> error + dataframe" where
  "read_csv fs path = (case fs path of None \<Rightarrow> Inl (FileNotFoundError path) | Some d \<Rightarrow> Inr d)"

record world =
  printed :: "string list"
  written :: filestore

definition print_line :: "string \<Rightarrow> world \<Rightarrow> world" where
  "print_line s w = w\<lparr>printed := printed w @ [s]\<rparr>"

definition to_csv :: "string \<Rightarrow> dataframe \<Rightarrow> world \<Rightarrow> world" where
  "to_csv path data w = w\<lparr>written := (written w)(path \<mapsto> data)\<rparr>"

definition path_timesync_dir :: string where
  "path_timesync_dir = ''../WISPER_data/time_sync/''"

definition path_pic1cal_dir :: string where
  "path_pic1cal_dir = ''../WISPER_data/pic1_cal/''"

definition path_pic2cal_dir :: string where
  "path_pic2cal_dir = ''../WISPER_data/pic2_cal/''"

section \<open>The 2016 calibration \<^verbatim>\<open>pic2_cal16\<close>\<close>

text \<open>The formulas on whole columns (numpy broadcasts the scalar parameters).\<close>

definition q_dep_cal_series :: "series \<Rightarrow> series \<Rightarrow> fval \<Rightarrow> fval \<Rightarrow> series" where
  "q_dep_cal_series deltavals qvals a b = map2 (\<lambda>d q. q_dep_cal d q a b) deltavals qvals"

definition abscal_line_series :: "series \<Rightarrow> fval \<Rightarrow> fval \<Rightarrow> series" where
  "abscal_line_series x m k = map (\<lambda>v. abscal_line v m k) x"

record cal16_pars =
  aD :: real
  bD :: real
  a18O :: real
  b18O :: real
  mD :: real
  kD :: real
  m18O :: real
  k18O :: real
  mq :: real
  kq :: real

text \<open>The assignments under \<^verbatim>\<open>if pic=='Mako':\<close>, in the source's order.\<close>

definition mako_pars :: cal16_pars where
  "mako_pars =
     (let aD = - 0.365; bD = 3.031; a18O = - 0.00581; b18O = 4.961;
          mD = 1.056412; kD = - 5.957469; m18O = 1.051851; k18O = - 1.041851;
          ff = 3.5; k18O = k18O + ff;
          mq = 0.8512; kq = 0
      in \<lparr>aD = aD, bD = bD, a18O = a18O, b18O = b18O, mD = mD, kD = kD,
          m18O = m18O, k18O = k18O, mq = mq, kq = kq\<rparr>)"

text \<open>The assignments under \<^verbatim>\<open>if pic=='Gulper':\<close>.\<close>

definition gulper_pars :: cal16_pars where
  "gulper_pars =
     (let aD = 0.035; bD = 4.456; a18O = 0.06707; b18O = 1.889;
          mD = 1.094037184;
          m18O = 1.06831472;
          pD_M = - 75;
          pD_G = - 94;
          p18O_M = - 11.5;
          p18O_G = - 16.7;
          kD = pD_M - mD * pD_G;
          k18O = p18O_M - m18O * p18O_G;
          mq = 0.9085; kq = 0
      in \<lparr>aD = aD, bD = bD, a18O = a18O, b18O = b18O, mD = mD, kD = kD,
          m18O = m18O, k18O = k18O, mq = mq, kq = kq\<rparr>)"

text \<open>
  The two \<^verbatim>\<open>if\<close> statements one after the other; with any other name the parameter
  variables stay unbound (\<open>None\<close>).
\<close>

definition get_pars16 :: "string \<Rightarrow> cal16_pars option" where
  "get_pars16 pic =
     (let env = (if pic = ''Mako'' then Some mako_pars else None)
      in if pic = ''Gulper'' then Some gulper_pars else env)"

text \<open>Reading a local variable that may be unbound.\<close>

definition local_var :: "cal16_pars option \<Rightarrow> (cal16_pars \<Rightarrow> real) \<Rightarrow> string \<Rightarrow> error + fval" where
  "local_var env sel name =
     (case env of None \<Rightarrow> Inl (UnboundLocalError name) | Some ps \<Rightarrow> Inr (Fin (sel ps)))"

text \<open>
  The five assignments of the loop body (lines 216 to 224), each argument evaluated
  left to right.
\<close>

definition cal16_apply :: "cal16_pars option \<Rightarrow> dataframe \<Rightarrow> error + dataframe" where
  "cal16_apply env data0 =
     ebind (getitem data0 ''dD_tot2'') (\<lambda>dD.
     ebind (getitem data0 ''h2o_tot2'') (\<lambda>q.
     ebind (local_var env aD ''aD'') (\<lambda>a.
     ebind (local_var env bD ''bD'') (\<lambda>b.
     let data1 = data0(''dD_tot2'' \<mapsto> q_dep_cal_series dD q a b) in
     ebind (getitem data1 ''d18O_tot2'') (\<lambda>d18O.
     ebind (getitem data1 ''h2o_tot2'') (\<lambda>q.
     ebind (local_var env a18O ''a18O'') (\<lambda>a.
     ebind (local_var env b18O ''b18O'') (\<lambda>b.
     let data2 = data1(''d18O_tot2'' \<mapsto> q_dep_cal_series d18O q a b) in
     ebind (getitem data2 ''dD_tot2'') (\<lambda>dD.
     ebind (local_var env mD ''mD'') (\<lambda>m.
     ebind (local_var env kD ''kD'') (\<lambda>k.
     let data3 = data2(''dD_tot2'' \<mapsto> abscal_line_series dD m k) in
     ebind (getitem data3 ''d18O_tot2'') (\<lambda>d18O.
     ebind (local_var env m18O ''m18O'') (\<lambda>m.
     ebind (local_var env k18O ''k18O'') (\<lambda>k.
     let data4 = data3(''d18O_tot2'' \<mapsto> abscal_line_series d18O m k) in
     ebind (getitem data4 ''h2o_tot2'') (\<lambda>q.
     ebind (local_var env mq ''mq'') (\<lambda>m.
     ebind (local_var env kq ''kq'') (\<lambda>k.
     Inr (data4(''h2o_tot2'' \<mapsto> abscal_line_series q m k)))))))))))))))))))"

text \<open>One flight: load, replace the missing flag, calibrate.\<close>

definition cal16_flight :: "filestore \<Rightarrow> cal16_pars option \<Rightarrow> string \<Rightarrow> error + dataframe" where
  "cal16_flight fs env date =
     (let fname = ''WISPER_'' @ date @ ''_time-sync.ict'' in
      ebind (read_csv fs (path_timesync_dir @ fname)) (\<lambda>raw.
      cal16_apply env (replace_missing raw)))"

text \<open>
  The loop over the dates.  An exception leaves the loop and the function: the world
  is returned as it was when the exception was raised, with the exception.
\<close>

fun cal16_loop :: "filestore \<Rightarrow> cal16_pars option \<Rightarrow> string list \<Rightarrow> world \<Rightarrow> world \<times> error option" where
  "cal16_loop fs env [] w = (w, None)"
| "cal16_loop fs env (date # dates) w =
     (let w1 = print_line date w in
      case cal16_flight fs env date of
        Inl e \<Rightarrow> (w1, Some e)
      | Inr data \<Rightarrow>
          (let fname_save = ''WISPER_'' @ date @ ''_pic2-cal.ict''
           in cal16_loop fs env dates (to_csv (path_pic2cal_dir @ fname_save) data w1)))"

definition pic2_cal16 :: "filestore \<Rightarrow> string list \<Rightarrow> string \<Rightarrow> world \<Rightarrow> world \<times> error option" where
  "pic2_cal16 fs dates pic w = cal16_loop fs (get_pars16 pic) dates w"

section \<open>The 2017/2018 cross-calibration \<^verbatim>\<open>pic2_cal1718\<close>\<close>

text \<open>
  \<^verbatim>\<open>Series.rolling(window).mean()\<close>.  pandas first turns the infinite samples of the
  series into not-a-number; then, \<^verbatim>\<open>min_periods\<close> defaulting to the window size, the
  mean of the samples observed in the trailing window is returned when there are at
  least \<open>window\<close> of them, and not-a-number otherwise.
\<close>

definition inf_to_nan :: "fval \<Rightarrow> fval" where
  "inf_to_nan v = (if is_fin v then v else NaN)"

definition rolling_kernel :: "nat \<Rightarrow> series \<Rightarrow> series" where
  "rolling_kernel window values =
     map (\<lambda>i. let ws = drop (i + 1 - window) (take (i + 1) values);
                  obs = filter (\<lambda>v. v \<noteq> NaN) ws
              in if window \<le> length obs
                 then fdiv_count (foldl fadd (Fin 0) obs) (length obs)
                 else NaN)
         [0..<length values]"

definition rolling_mean :: "nat \<Rightarrow> series \<Rightarrow> series" where
  "rolling_mean window xs = rolling_kernel window (map inf_to_nan xs)"

text \<open>A parenthesised sum \<^verbatim>\<open>t1 + t2 + ... + tn\<close>, added from the left.\<close>

fun sum_terms :: "fval list \<Rightarrow> fval" where
  "sum_terms [] = Fin 0"
| "sum_terms (t # ts) = foldl fadd t ts"

text \<open>\<^verbatim>\<open>xcal_h2o(q, p) = p['h2o_tot2']*q\<close>.\<close>

definition xcal_h2o :: "series \<Rightarrow> coeffs \<Rightarrow> error + series" where
  "xcal_h2o q p = ebind (getitem p ''h2o_tot2'') (\<lambda>c. Inr (map (\<lambda>v. fmul c v) q))"

text \<open>
  \<^verbatim>\<open>xcal_dD(logq, dD, p)\<close>.  Only the dictionary lookups can raise, so they are taken
  first, in the order of the expression; the arithmetic is elementwise.
\<close>

definition xcal_dD :: "series \<Rightarrow> series \<Rightarrow> coeffs \<Rightarrow> error + series" where
  "xcal_dD logq dD p =
     ebind (getitem p ''logq^3'') (\<lambda>c_logq3.
     ebind (getitem p ''logq^2'') (\<lambda>c_logq2.
     ebind (getitem p ''logq^1'') (\<lambda>c_logq1.
     ebind (getitem p ''dD^1'') (\<lambda>c_d1.
     ebind (getitem p ''dD^2'') (\<lambda>c_d2.
     ebind (getitem p ''dD^3'') (\<lambda>c_d3.
     ebind (getitem p ''(dD*logq)^1'') (\<lambda>c_cross1.
     ebind (getitem p ''(dD*logq)^2'') (\<lambda>c_cross2.
     ebind (getitem p ''(dD*logq)^3'') (\<lambda>c_cross3.
     ebind (getitem p ''const'') (\<lambda>const.
     Inr (map2 (\<lambda>l d. sum_terms
       [fmul c_logq3 (fpow l (Fin 3)), fmul c_logq2 (fpow l (Fin 2)),
        fmul c_logq1 (fpow l (Fin 1)), fmul c_d1 (fpow d (Fin 1)),
        fmul c_d2 (fpow d (Fin 2)), fmul c_d3 (fpow d (Fin 3)),
        fmul c_cross1 (fpow (fmul d l) (Fin 1)),
        fmul c_cross2 (fpow (fmul d l) (Fin 2)),
        fmul c_cross3 (fpow (fmul d l) (Fin 3)),
        const]) logq dD)))))))))))"

text \<open>
  \<^verbatim>\<open>xcal_d18O(logq, d18O, p)\<close>; the second \<^verbatim>\<open>+\<close> before \<^verbatim>\<open>p['d18O^3']\<close> is a unary plus
  on that coefficient.
\<close>

definition xcal_d18O :: "series \<Rightarrow> series \<Rightarrow> coeffs \<Rightarrow> error + series" where
  "xcal_d18O logq d18O p =
     ebind (getitem p ''logq^3'') (\<lambda>c_logq3.
     ebind (getitem p ''logq^2'') (\<lambda>c_logq2.
     ebind (getitem p ''logq^1'') (\<lambda>c_logq1.
     ebind (getitem p ''d18O^1'') (\<lambda>c_d1.
     ebind (getitem p ''d18O^2'') (\<lambda>c_d2.
     ebind (getitem p ''d18O^3'') (\<lambda>c_d3.
     ebind (getitem p ''(d18O*logq)^1'') (\<lambda>c_cross1.
     ebind (getitem p ''(d18O*logq)^2'') (\<lambda>c_cross2.
     ebind (getitem p ''(d18O*logq)^3'') (\<lambda>c_cross3.
     ebind (getitem p ''const'') (\<lambda>const.
     Inr (map2 (\<lambda>l d. sum_terms
       [fmul c_logq3 (fpow l (Fin 3)), fmul c_logq2 (fpow l (Fin 2)),
        fmul c_logq1 (fpow l (Fin 1)), fmul c_d1 (fpow d (Fin 1)),
        fmul c_d2 (fpow d (Fin 2)), fmul (fpos c_d3) (fpow d (Fin 3)),
        fmul c_cross1 (fpow (fmul d l) (Fin 1)),
        fmul c_cross2 (fpow (fmul d l) (Fin 2)),
        fmul c_cross3 (fpow (fmul d l) (Fin 3)),
        const]) logq d18O)))))))))))"

text \<open>\<^verbatim>\<open>data[cols]\<close> with a list of names raises when one of them is no column.\<close>

fun require_columns :: "dataframe \<Rightarrow> string list \<Rightarrow> error + unit" where
  "require_columns data [] = Inr ()"
| "require_columns data (c # cs) =
     (case data c of None \<Rightarrow> Inl (KeyError (StrKey c)) | Some _ \<Rightarrow> require_columns data cs)"

text \<open>\<^verbatim>\<open>data[cols] = data[cols].rolling(window=10).mean()\<close>.\<close>

definition smooth_columns :: "string list \<Rightarrow> dataframe \<Rightarrow> dataframe" where
  "smooth_columns cols data =
     (\<lambda>c. if c \<in> set cols then map_option (rolling_mean 10) (data c) else data c)"

text \<open>
  The optional test plots (lines 114 to 133): the figures themselves are not modelled,
  the columns they read and the smoothing they write into \<^verbatim>\<open>data\<close> are.
\<close>

definition test_plots :: "dataframe \<Rightarrow> error + dataframe" where
  "test_plots data =
     ebind (getitem data ''h2o_tot2'') (\<lambda>_.
     ebind (getitem data ''h2o_tot1'') (\<lambda>_.
     let vars2smooth = [''dD_tot1'', ''dD_tot2'', ''d18O_tot1'', ''d18O_tot2''] in
     ebind (require_columns data vars2smooth) (\<lambda>_.
     let data1 = smooth_columns vars2smooth data in
     ebind (getitem data1 ''Start_UTC'') (\<lambda>_.
     Inr data1))))"

text \<open>
  The body of the loop for one flight, from the loaded frame to the frame saved
  (lines 98 to 139).  The three parameter tables are the sheets read at the start of
  the function, indexed by year.
\<close>

definition cal1718_apply ::
  "(int \<rightharpoonup> coeffs) \<Rightarrow> (int \<rightharpoonup> coeffs) \<Rightarrow> (int \<rightharpoonup> coeffs) \<Rightarrow> int \<Rightarrow> bool \<Rightarrow> dataframe
     \<Rightarrow> error + dataframe" where
  "cal1718_apply params_h2o params_dD params_d18O year testplots raw =
     (let data = replace_missing raw in
      ebind (getitem data ''h2o_tot2'') (\<lambda>q.
      ebind (loc params_h2o year) (\<lambda>p_h2o.
      ebind (xcal_h2o q p_h2o) (\<lambda>h2o_corrected.
      ebind (getitem data ''h2o_tot2'') (\<lambda>q.
      ebind (getitem data ''dD_tot2'') (\<lambda>dD.
      ebind (loc params_dD year) (\<lambda>p_dD.
      ebind (xcal_dD (map flog q) (rolling_mean 10 dD) p_dD) (\<lambda>dD_corrected.
      ebind (getitem data ''h2o_tot2'') (\<lambda>q.
      ebind (getitem data ''d18O_tot2'') (\<lambda>d18O.
      ebind (loc params_d18O year) (\<lambda>p_d18O.
      ebind (xcal_d18O (map flog q) (rolling_mean 10 d18O) p_d18O) (\<lambda>d18O_corrected.
      ebind (if testplots then test_plots data else Inr data) (\<lambda>data.
      Inr (data(''h2o_tot2'' \<mapsto> h2o_corrected, ''dD_tot2'' \<mapsto> dD_corrected,
                ''d18O_tot2'' \<mapsto> d18O_corrected)))))))))))))))"

definition cal1718_flight ::
  "filestore \<Rightarrow> (int \<rightharpoonup> coeffs) \<Rightarrow> (int \<rightharpoonup> coeffs) \<Rightarrow> (int \<rightharpoonup> coeffs) \<Rightarrow> int \<Rightarrow> bool \<Rightarrow> string
     \<Rightarrow> error + dataframe" where
  "cal1718_flight fs params_h2o params_dD params_d18O year testplots date =
     (let fname = ''WISPER_'' @ date @ ''_pic1-cal.ict'' in
      ebind (read_csv fs (path_pic1cal_dir @ fname)) (\<lambda>raw.
      cal1718_apply params_h2o params_dD params_d18O year testplots raw))"

fun cal1718_loop ::
  "filestore \<Rightarrow> (int \<rightharpoonup> coeffs) \<Rightarrow> (int \<rightharpoonup> coeffs) \<Rightarrow> (int \<rightharpoonup> coeffs) \<Rightarrow> int \<Rightarrow> bool
     \<Rightarrow> string list \<Rightarrow> world \<Rightarrow> world \<times> error option" where
  "cal1718_loop fs ph pd po year testplots [] w = (w, None)"
| "cal1718_loop fs ph pd po year testplots (date # dates) w =
     (let w1 = print_line date w in
      case cal1718_flight fs ph pd po year testplots date of
        Inl e \<Rightarrow> (w1, Some e)
      | Inr data \<Rightarrow>
          (let fname_save = ''WISPER_'' @ date @ ''_pic2-cal.ict''
           in cal1718_loop fs ph pd po year testplots dates
                (to_csv (path_pic2cal_dir @ fname_save) data w1)))"

definition pic2_cal1718 ::
  "filestore \<Rightarrow> (int \<rightharpoonup> coeffs) \<Rightarrow> (int \<rightharpoonup> coeffs) \<Rightarrow> (int \<rightharpoonup> coeffs) \<Rightarrow> int \<Rightarrow> string list \<Rightarrow> bool
     \<Rightarrow> world \<Rightarrow> world \<times> error option" where
  "pic2_cal1718 fs params_h2o params_dD params_d18O year dates testplots w =
     cal1718_loop fs params_h2o params_dD params_d18O year testplots dates w"

section \<open>Uncertainty estimation (\<^verbatim>\<open>uncertainty_estimation.py\<close>)\<close>

text \<open>
  \<^verbatim>\<open>np.linspace(start, stop, num)\<close> and \<^verbatim>\<open>np.meshgrid(x, y)\<close>: the first grid repeats
  \<open>x\<close> along every row, the second holds one value of \<open>y\<close> per row.
\<close>

definition linspace :: "real \<Rightarrow> real \<Rightarrow> nat \<Rightarrow> real list" where
  "linspace start stop num =
     map (\<lambda>i. start + real i * ((stop - start) / real (num - 1))) [0..<num]"

type_synonym grid = "fval list list"

definition meshgrid :: "real list \<Rightarrow> real list \<Rightarrow> grid \<times> grid" where
  "meshgrid xs ys =
     (map (\<lambda>y. map Fin xs) ys, map (\<lambda>y. map (\<lambda>x. Fin y) xs) ys)"

definition zeros_like :: "grid \<Rightarrow> grid" where
  "zeros_like g = map (map (\<lambda>_. Fin 0)) g"

text \<open>\<^verbatim>\<open>calparams[i]\<close> on a sequence.\<close>

definition index :: "'a list \<Rightarrow> nat \<Rightarrow> error + 'a" where
  "index xs i = (if i < length xs then Inr (xs ! i) else Inl IndexError)"

text \<open>
  \<^verbatim>\<open>pic1_isoratio_fullcal(d, q, calparams)\<close>, nested in \<^verbatim>\<open>wisper_uncertainties_MC\<close>.  The
  functions \<^verbatim>\<open>pic1_cal.q_dep_cal\<close> and \<^verbatim>\<open>pic1_cal.abs_cal\<close> belong to a module that is
  not part of the sources; they are parameters here.
\<close>

definition pic1_isoratio_fullcal ::
  "('g \<Rightarrow> 'g \<Rightarrow> fval \<Rightarrow> fval \<Rightarrow> 'g) \<Rightarrow> ('g \<Rightarrow> fval \<Rightarrow> fval \<Rightarrow> 'g) \<Rightarrow> 'g \<Rightarrow> 'g \<Rightarrow> fval list
     \<Rightarrow> error + 'g" where
  "pic1_isoratio_fullcal pic1_q_dep_cal pic1_abs_cal d q calparams =
     ebind (index calparams 0) (\<lambda>p0.
     ebind (index calparams 1) (\<lambda>p1.
     let d_qdep_correct = pic1_q_dep_cal d q p0 p1 in
     ebind (index calparams 2) (\<lambda>p2.
     ebind (index calparams 3) (\<lambda>p3.
     let d_abscal = pic1_abs_cal d_qdep_correct p2 p3 in
     Inr d_abscal))))"

text \<open>
  A call of \<^verbatim>\<open>mc.mc_normalsampler\<close>, whose module is not part of the sources either:
  the sampler is a parameter, applied to the calibration function, the input grids,
  the parameters and their standard deviations, the number of trials, and the
  optional keywords \<^verbatim>\<open>sig_inputvars\<close> and \<^verbatim>\<open>return_agg\<close>.
\<close>

type_synonym 'r sampler =
  "(grid \<Rightarrow> grid \<Rightarrow> fval list \<Rightarrow> error + grid) \<Rightarrow> grid list \<Rightarrow> fval list \<Rightarrow> fval list \<Rightarrow> nat
     \<Rightarrow> grid list option \<Rightarrow> bool option \<Rightarrow> 'r"

definition wisper_uncertainties_MC ::
  "'r sampler \<Rightarrow> (grid \<Rightarrow> grid \<Rightarrow> fval \<Rightarrow> fval \<Rightarrow> grid) \<Rightarrow> (grid \<Rightarrow> fval \<Rightarrow> fval \<Rightarrow> grid)
     \<Rightarrow> grid \<Rightarrow> grid \<Rightarrow> fval list \<Rightarrow> fval list \<Rightarrow> grid option \<Rightarrow> 'r" where
  "wisper_uncertainties_MC mc_normalsampler pic1_q_dep_cal pic1_abs_cal
       d q calparams sig_calparams sig_d =
     (case sig_d of
        Some sig_d' \<Rightarrow>
          (let sig_q = zeros_like q in
           mc_normalsampler (pic1_isoratio_fullcal pic1_q_dep_cal pic1_abs_cal) [d, q]
             calparams sig_calparams 6000 (Some [sig_d', sig_q]) (Some True))
      | None \<Rightarrow>
          mc_normalsampler (pic1_isoratio_fullcal pic1_q_dep_cal pic1_abs_cal) [d, q]
            calparams sig_calparams 6000 None (Some True))"

text \<open>
  The Monte Carlo stage of \<^verbatim>\<open>wisper_uncertainties_with_fit\<close> (lines 197 to 204); the
  pair \<open>calparams\<close> is what \<^verbatim>\<open>get_calparams('D', 1)\<close> loads.
\<close>

definition wisper_uncertainties_with_fit_mc ::
  "'r sampler \<Rightarrow> (grid \<Rightarrow> grid \<Rightarrow> fval \<Rightarrow> fval \<Rightarrow> grid) \<Rightarrow> (grid \<Rightarrow> fval \<Rightarrow> fval \<Rightarrow> grid)
     \<Rightarrow> fval list \<times> fval list \<Rightarrow> 'r" where
  "wisper_uncertainties_with_fit_mc mc_normalsampler pic1_q_dep_cal pic1_abs_cal calparams =
     (let (q, d) = meshgrid (linspace 1500 22000 100) (linspace (- 300) (- 60) 150) in
      wisper_uncertainties_MC mc_normalsampler pic1_q_dep_cal pic1_abs_cal
        d q (fst calparams) (snd calparams) None)"

text \<open>
  Evaluating a name that is bound in no enclosing scope.  Inside
  \<^verbatim>\<open>pic1_uncertainties\<close> the definition of \<^verbatim>\<open>pic1_isoratio_fullcal\<close> is commented out
  (lines 275 to 281); the only definition left is local to \<^verbatim>\<open>wisper_uncertainties_MC\<close>
  (line 54), and the module has no global of that name.
\<close>

definition unbound_name :: "string \<Rightarrow> error + 'a" where
  "unbound_name name = Inl (NameError name)"

text \<open>
  The Monte Carlo stage of \<^verbatim>\<open>sigma_with_fit_dD\<close> (lines 307 to 321) and of
  \<^verbatim>\<open>sigma_with_fit_d18O\<close> (lines 360 to 374), nested in \<^verbatim>\<open>pic1_uncertainties\<close>.  The
  precision functions of the module \<^verbatim>\<open>precisions\<close> are parameters.
\<close>

definition sigma_with_fit_dD_mc ::
  "'r sampler \<Rightarrow> (grid \<Rightarrow> grid) \<Rightarrow> fval list \<Rightarrow> fval list \<Rightarrow> bool \<Rightarrow> error + 'r" where
  "sigma_with_fit_dD_mc mc_normalsampler dD_precision_pic1 params sig_params sig_inputvars =
     (let (q, d) = meshgrid (linspace 1500 22000 100) (linspace (- 300) (- 60) 150) in
      if sig_inputvars then
        (let sig_q = zeros_like q; sig_dD = dD_precision_pic1 q in
         ebind (unbound_name ''pic1_isoratio_fullcal'') (\<lambda>f.
         Inr (mc_normalsampler f [d, q] params sig_params 6000 (Some [sig_dD, sig_q]) None)))
      else
        ebind (unbound_name ''pic1_isoratio_fullcal'') (\<lambda>f.
        Inr (mc_normalsampler f [d, q] params sig_params 6000 None None)))"

definition sigma_with_fit_d18O_mc ::
  "'r sampler \<Rightarrow> (grid \<Rightarrow> grid) \<Rightarrow> fval list \<Rightarrow> fval list \<Rightarrow> bool \<Rightarrow> error + 'r" where
  "sigma_with_fit_d18O_mc mc_normalsampler d18O_precision_pic1 params sig_params sig_inputvars =
     (let (q, d) = meshgrid (linspace 1500 22000 100) (linspace (- 30) (- 8) 150) in
      if sig_inputvars then
        (let sig_q = zeros_like q; sig_d18O = d18O_precision_pic1 q in
         ebind (unbound_name ''pic1_isoratio_fullcal'') (\<lambda>f.
         Inr (mc_normalsampler f [d, q] params sig_params 6000 (Some [sig_d18O, sig_q]) None)))
      else
        ebind (unbound_name ''pic1_isoratio_fullcal'') (\<lambda>f.
        Inr (mc_normalsampler f [d, q] params sig_params 6000 None None)))"

subsection \<open>The surrogate fit \<^verbatim>\<open>fit_poly\<close>\<close>

text \<open>
  \<^verbatim>\<open>sm.OLS(endog, exog, missing='drop').fit()\<close> is a call into statsmodels.  With
  \<^verbatim>\<open>missing='drop'\<close> the observations holding a not-a-number are dropped, and only
  those.  Then the maximum of every column of the design matrix is taken
  (\<^verbatim>\<open>np.max(exog, axis=0)\<close>, which raises \<^verbatim>\<open>ValueError\<close> when no row is left) and
  \<^verbatim>\<open>MissingDataError('exog contains inf or nans')\<close> is raised unless all of them are
  finite.  The regression on the data that passed is a parameter \<open>ols\<close>, which may
  raise, and whose result holds the coefficient vector and the coefficient of
  determination.
\<close>

record ols_fit =
  params :: "fval list"
  rsquared :: fval

text \<open>The row of the six predictor columns, in the order of \<^verbatim>\<open>predictorvars\<close>.\<close>

definition predictor_row :: "fval \<Rightarrow> fval \<Rightarrow> fval list" where
  "predictor_row logq d =
     [Fin 1, logq, fpow logq (Fin 2), fpow logq (Fin 3), fpow logq (Fin 4), d]"

definition drop_missing :: "(fval \<times> fval list) list \<Rightarrow> (fval \<times> fval list) list" where
  "drop_missing rows = filter (\<lambda>(y, xs). y \<noteq> NaN \<and> NaN \<notin> set xs) rows"

text \<open>The maximum of two floats, as \<^verbatim>\<open>np.max\<close> takes it, and of the columns of a matrix.\<close>

fun fmax :: "fval \<Rightarrow> fval \<Rightarrow> fval" where
  "fmax NaN _ = NaN"
| "fmax _ NaN = NaN"
| "fmax PInf _ = PInf"
| "fmax _ PInf = PInf"
| "fmax NInf y = y"
| "fmax x NInf = x"
| "fmax (Fin x) (Fin y) = Fin (max x y)"

definition exog_max :: "fval list list \<Rightarrow> error + fval list" where
  "exog_max exog =
     (case exog of [] \<Rightarrow> Inl ValueError | row # rows \<Rightarrow> Inr (foldl (map2 fmax) row rows))"

text \<open>\<^verbatim>\<open>np.round(x, decimals=2)\<close>: to the nearest hundredth, ties to the even one.\<close>

definition round_half_even :: "real \<Rightarrow> int" where
  "round_half_even x =
     (let f = \<lfloor>x\<rfloor>; r = x - of_int f
      in if r < 1 / 2 then f else if 1 / 2 < r then f + 1 else if even f then f else f + 1)"

fun np_round2 :: "fval \<Rightarrow> fval" where
  "np_round2 (Fin x) = Fin (of_int (round_half_even (x * 100)) / 100)"
| "np_round2 v = v"

text \<open>
  \<^verbatim>\<open>fit_poly(q, d, sig_d)\<close> on three arrays; the result is the value returned and the
  line printed.  A data frame of columns of different lengths cannot be built.
\<close>

definition fit_poly ::
  "(fval list \<Rightarrow> fval list list \<Rightarrow> error + ols_fit) \<Rightarrow> series \<Rightarrow> series \<Rightarrow> series
     \<Rightarrow> error + (fval list \<times> fval list)" where
  "fit_poly ols q d sig_d =
     (if length d \<noteq> length q \<or> length sig_d \<noteq> length q then Inl ValueError
      else
        let logq = map flog q;
            exog = map2 predictor_row logq d;
            kept = drop_missing (zip sig_d exog)
        in ebind (exog_max (map snd kept)) (\<lambda>maxima.
           if \<not> list_all is_fin maxima then Inl MissingDataError
           else
             ebind (ols (map fst kept) (map snd kept)) (\<lambda>fit.
             let printed = [np_round2 (rsquared fit)]
             in Inr (params fit, printed))))"

section \<open>Statements of the specification\<close>

text \<open>
  The ten-term cubic of the specification's cross-calibration of an isotope ratio, on
  real numbers.
\<close>

definition spec_cross_polynomial ::
  "real \<Rightarrow> real \<Rightarrow> real \<Rightarrow> real \<Rightarrow> real \<Rightarrow> real \<Rightarrow> real \<Rightarrow> real \<Rightarrow> real \<Rightarrow> real \<Rightarrow> real \<Rightarrow> real
     \<Rightarrow> real" where
  "spec_cross_polynomial c_logq3 c_logq2 c_logq1 c_d1 c_d2 c_d3 c_cross1 c_cross2 c_cross3
       const logQ delta =
     c_logq3 * logQ ^ 3 + c_logq2 * logQ ^ 2 + c_logq1 * logQ
       + c_d1 * delta + c_d2 * delta ^ 2 + c_d3 * delta ^ 3
       + c_cross1 * (delta * logQ) + c_cross2 * (delta * logQ) ^ 2
       + c_cross3 * (delta * logQ) ^ 3 + const"

text \<open>A cell of a loaded file that holds the missing-value flag or is already missing.\<close>

definition missing_cell :: "fval \<Rightarrow> bool" where
  "missing_cell v = (v = Fin (- 9999) \<or> v = NaN)"

text \<open>
  Row \<open>i\<close> of the saved frame \<open>out\<close> is missing in every corrected column whose formula
  reads a missing cell of row \<open>i\<close> of the loaded columns: the isotope columns read
  their own column and the humidity, the humidity column reads the humidity.
\<close>

definition flows_as_missing :: "series \<Rightarrow> series \<Rightarrow> series \<Rightarrow> nat \<Rightarrow> dataframe \<Rightarrow> bool" where
  "flows_as_missing dD d18O h2o i out =
     (\<exists>dD_out d18O_out h2o_out.
        out ''dD_tot2'' = Some dD_out \<and> out ''d18O_tot2'' = Some d18O_out
        \<and> out ''h2o_tot2'' = Some h2o_out
        \<and> (missing_cell (dD ! i) \<or> missing_cell (h2o ! i) \<longrightarrow> dD_out ! i = NaN)
        \<and> (missing_cell (d18O ! i) \<or> missing_cell (h2o ! i) \<longrightarrow> d18O_out ! i = NaN)
        \<and> (missing_cell (h2o ! i) \<longrightarrow> h2o_out ! i = NaN))"

text \<open>
  What the regression of statsmodels is taken to do when it returns: the coefficient
  vector has one coefficient for each column of the design matrix.
\<close>

definition one_coefficient_per_column ::
  "(fval list \<Rightarrow> fval list list \<Rightarrow> error + ols_fit) \<Rightarrow> bool" where
  "one_coefficient_per_column ols =
     (\<forall>endog exog fit n.
        ols endog exog = Inr fit \<and> exog \<noteq> [] \<and> (\<forall>row \<in> set exog. length row = n)
        \<longrightarrow> length (params fit) = n)"

section \<open>Example inputs\<close>

text \<open>A one-row flight file and a store holding it for two flight dates.\<close>

definition example_frame :: dataframe where
  "example_frame =
     [''dD_tot2'' \<mapsto> [Fin (- 9999)], ''d18O_tot2'' \<mapsto> [Fin (- 10)], ''h2o_tot2'' \<mapsto> [Fin 1]]"

definition example_store :: filestore where
  "example_store =
     [''../WISPER_data/time_sync/WISPER_20160830_time-sync.ict'' \<mapsto> example_frame,
      ''../WISPER_data/time_sync/WISPER_20160831_time-sync.ict'' \<mapsto> example_frame,
      ''../WISPER_data/pic1_cal/WISPER_20170815_pic1-cal.ict'' \<mapsto> example_frame]"

text \<open>A flight file of eleven rows, enough for one full window of the moving average.\<close>

definition example_frame11 :: dataframe where
  "example_frame11 =
     [''dD_tot2'' \<mapsto> replicate 11 (Fin 2), ''d18O_tot2'' \<mapsto> replicate 11 (Fin 2),
      ''h2o_tot2'' \<mapsto> replicate 11 (Fin 1)]"

definition empty_world :: world where
  "empty_world = \<lparr>printed = [], written = Map.empty\<rparr>"

text \<open>Coefficient tables for the year 2017.\<close>

definition example_params_h2o :: "int \<rightharpoonup> coeffs" where
  "example_params_h2o = [2017 \<mapsto> [''h2o_tot2'' \<mapsto> Fin 2]]"

definition example_params_dD :: "int \<rightharpoonup> coeffs" where
  "example_params_dD = [2017 \<mapsto> map_of
     [(''logq^3'', Fin 1), (''logq^2'', Fin 2), (''logq^1'', Fin 3),
      (''dD^1'', Fin 4), (''dD^2'', Fin 5), (''dD^3'', Fin 6),
      (''(dD*logq)^1'', Fin 7), (''(dD*logq)^2'', Fin 8), (''(dD*logq)^3'', Fin 9),
      (''const'', Fin 10)]]"

definition example_params_d18O :: "int \<rightharpoonup> coeffs" where
  "example_params_d18O = [2017 \<mapsto> map_of
     [(''logq^3'', Fin 1), (''logq^2'', Fin 2), (''logq^1'', Fin 3),
      (''d18O^1'', Fin 4), (''d18O^2'', Fin 5), (''d18O^3'', Fin 6),
      (''(d18O*logq)^1'', Fin 7), (''(d18O*logq)^2'', Fin 8), (''(d18O*logq)^3'', Fin 9),
      (''const'', Fin 10)]]"

text \<open>A stand-in for the regression that returns the first row it is given.\<close>

definition first_row_ols :: "fval list \<Rightarrow> fval list list \<Rightarrow> error + ols_fit" where
  "first_row_ols endog exog =
     (case exog of [] \<Rightarrow> Inl (LibraryError ''empty'')
      | row # _ \<Rightarrow> Inr \<lparr>params = row, rsquared = Fin 1\<rparr>)"

section \<open>Properties of the float operations\<close>

lemma fadd_NaN_right: "fadd x NaN = NaN"
  by (cases x) simp_all

lemma fmul_NaN_right: "fmul x NaN = NaN"
  by (cases x) simp_all

lemma fsub_NaN_left: "fsub NaN x = NaN"
  by (simp add: fsub_def)

lemma fsub_NaN_right: "fsub x NaN = NaN"
  by (simp add: fsub_def fadd_NaN_right)

lemma fpow_NaN_left: "y \<noteq> Fin 0 \<Longrightarrow> fpow NaN y = NaN"
  by (simp add: fpow_def)

lemma foldl_fadd_NaN: "foldl fadd NaN ts = NaN"
  by (induction ts) simp_all

lemmas nan_simps =
  fadd_NaN_right fmul_NaN_right fsub_NaN_left fsub_NaN_right fpow_NaN_left foldl_fadd_NaN

lemma fpow_fin_pos: "0 < x \<Longrightarrow> fpow (Fin x) (Fin y) = Fin (x powr y)"
  by (simp add: fpow_def)

lemma fpow_fin_nat: "0 < n \<Longrightarrow> fpow (Fin x) (Fin (real n)) = Fin (x ^ n)"
proof -
  assume n: "0 < n"
  consider "0 < x" | "x = 0" | "x < 0" by linarith
  then show ?thesis
  proof cases
    case 1
    then show ?thesis using n by (simp add: fpow_def powr_realpow)
  next
    case 2
    then show ?thesis using n by (simp add: fpow_def)
  next
    case 3
    then show ?thesis using n by (simp add: fpow_def is_integral_def power_int_def)
  qed
qed

lemma fpow_fin_1: "fpow (Fin x) (Fin 1) = Fin x"
  using fpow_fin_nat [of 1 x] by simp

lemma fpow_fin_2: "fpow (Fin x) (Fin 2) = Fin (x ^ 2)"
  using fpow_fin_nat [of 2 x] by simp

lemma fpow_fin_3: "fpow (Fin x) (Fin 3) = Fin (x ^ 3)"
  using fpow_fin_nat [of 3 x] by simp

lemma fpow_fin_4: "fpow (Fin x) (Fin 4) = Fin (x ^ 4)"
  using fpow_fin_nat [of 4 x] by simp

section \<open>Properties of lookups and of the error monad\<close>

lemma ebind_Inr: "ebind (Inr x) f = f x"
  by (simp add: ebind_def)

lemma ebind_Inl: "ebind (Inl e) f = Inl e"
  by (simp add: ebind_def)

lemma ebind_eq_Inr: "ebind m f = Inr y \<longleftrightarrow> (\<exists>x. m = Inr x \<and> f x = Inr y)"
  by (cases m) (simp_all add: ebind_def)

lemma getitem_Some: "m c = Some v \<Longrightarrow> getitem m c = Inr v"
  by (simp add: getitem_def)

lemma getitem_eq_Inr: "getitem m c = Inr v \<longleftrightarrow> m c = Some v"
  by (simp add: getitem_def split: option.splits)

lemma loc_eq_Inr: "loc t y = Inr p \<longleftrightarrow> t y = Some p"
  by (simp add: loc_def split: option.splits)

lemma local_var_Some: "local_var (Some ps) sel name = Inr (Fin (sel ps))"
  by (simp add: local_var_def)

lemma local_var_None: "local_var None sel name = Inl (UnboundLocalError name)"
  by (simp add: local_var_def)

section \<open>The humidity-dependence correction and the full calibration\<close>

text \<open>
  C7, as the code has it.  A zero exponent makes the power one, so the correction is
  the coefficient \<open>a\<close> itself: for every humidity \<open>q > 0\<close> the corrected value is
  \<open>d - a\<close>, and it is \<open>d\<close> when \<open>a = 0\<close>.
\<close>

theorem q_dep_cal_zero_exponent:
  "0 < q \<Longrightarrow>
     q_dep_cal (Fin d) (Fin q) (Fin a) (Fin 0) = Fin (d - a)
     \<and> q_dep_cal (Fin d) (Fin q) (Fin 0) (Fin 0) = Fin d"
  by (simp add: q_dep_cal_def qdep_correction_def fpow_def fsub_def)

theorem q_dep_cal_zero_exponent_witness:
  "(0::real) < 15000
   \<and> q_dep_cal (Fin (- 70)) (Fin 15000) (Fin 2) (Fin 0) = Fin (- 72)
   \<and> q_dep_cal (Fin (- 70)) (Fin 15000) (Fin 0) (Fin 0) = Fin (- 70)"
  using q_dep_cal_zero_exponent [of 15000 "- 70" 2] by simp

text \<open>
  C7 as the specification states it, identity for every coefficient \<open>a\<close>, fails: with
  \<open>d = 0\<close>, \<open>q = 1\<close>, \<open>a = 1\<close> and \<open>b = 0\<close> the result is \<open>- 1\<close>.
\<close>

theorem q_dep_cal_zero_exponent_not_identity:
  "q_dep_cal (Fin 0) (Fin 1) (Fin 1) (Fin 0) \<noteq> Fin 0"
  by (simp add: q_dep_cal_def qdep_correction_def fpow_def fsub_def)

lemma cal16_apply_Some:
  assumes "data ''dD_tot2'' = Some dD" "data ''d18O_tot2'' = Some d18O"
    "data ''h2o_tot2'' = Some h2o"
  shows "cal16_apply (Some ps) data = Inr (data
     (''dD_tot2'' \<mapsto> map2 (\<lambda>d q. abscal_line (q_dep_cal d q (Fin (aD ps)) (Fin (bD ps)))
                                (Fin (mD ps)) (Fin (kD ps))) dD h2o,
      ''d18O_tot2'' \<mapsto> map2 (\<lambda>d q. abscal_line (q_dep_cal d q (Fin (a18O ps)) (Fin (b18O ps)))
                                (Fin (m18O ps)) (Fin (k18O ps))) d18O h2o,
      ''h2o_tot2'' \<mapsto> map (\<lambda>q. abscal_line q (Fin (mq ps)) (Fin (kq ps))) h2o))"
  unfolding cal16_apply_def using assms
  by (simp add: getitem_def ebind_Inr local_var_Some Let_def fun_upd_twist
      abscal_line_series_def q_dep_cal_series_def comp_def case_prod_unfold)

lemma fullcal_real:
  assumes "0 < q" "q < 50000"
  shows "abscal_line (q_dep_cal (Fin d) (Fin q) (Fin a) (Fin b)) (Fin m) (Fin k)
       = Fin (m * (d - a * (ln 50000 - ln q) powr b) + k)"
proof -
  have "ln q < ln 50000" using assms by simp
  then have "0 < ln 50000 - ln q" by simp
  then show ?thesis using assms
    by (simp add: abscal_line_def q_dep_cal_def qdep_correction_def fsub_def fpow_fin_pos)
qed

lemma pic1_isoratio_fullcal_4:
  "pic1_isoratio_fullcal qdc ac d q [a, b, m, k] = Inr (ac (qdc d q a b) m k)"
  by (simp add: pic1_isoratio_fullcal_def index_def ebind_Inr)

text \<open>
  C1.  The full calibration applies the humidity-dependence correction first and the
  absolute calibration second: in the 2016 loop body both isotope columns of the
  saved frame are \<open>abscal_line\<close> of \<open>q_dep_cal\<close> of the loaded columns (the humidity
  column gets the absolute calibration alone), \<^verbatim>\<open>pic1_isoratio_fullcal\<close> composes its
  two helpers, whatever they compute, in the same order, and on finite values with
  \<open>0 < q < 50000\<close> the composition is \<open>m * (d - a * (ln 50000 - ln q) powr b) + k\<close>.
\<close>

theorem fullcal_qdep_then_abscal:
  assumes "data ''dD_tot2'' = Some dD" "data ''d18O_tot2'' = Some d18O"
    "data ''h2o_tot2'' = Some h2o" "0 < q" "q < 50000"
  shows "cal16_apply (Some ps) data = Inr (data
     (''dD_tot2'' \<mapsto> map2 (\<lambda>d q. abscal_line (q_dep_cal d q (Fin (aD ps)) (Fin (bD ps)))
                                (Fin (mD ps)) (Fin (kD ps))) dD h2o,
      ''d18O_tot2'' \<mapsto> map2 (\<lambda>d q. abscal_line (q_dep_cal d q (Fin (a18O ps)) (Fin (b18O ps)))
                                (Fin (m18O ps)) (Fin (k18O ps))) d18O h2o,
      ''h2o_tot2'' \<mapsto> map (\<lambda>q. abscal_line q (Fin (mq ps)) (Fin (kq ps))) h2o))
   \<and> pic1_isoratio_fullcal pic1_q_dep_cal pic1_abs_cal dv qv [a, b, m, k]
       = Inr (pic1_abs_cal (pic1_q_dep_cal dv qv a b) m k)
   \<and> abscal_line (q_dep_cal (Fin d) (Fin q) (Fin a') (Fin b')) (Fin m') (Fin k')
       = Fin (m' * (d - a' * (ln 50000 - ln q) powr b') + k')"
  using cal16_apply_Some [OF assms(1-3)] fullcal_real [OF assms(4,5)] pic1_isoratio_fullcal_4
  by simp

theorem fullcal_qdep_then_abscal_witness:
  "(\<exists>out. cal16_apply (Some mako_pars) example_frame = Inr out
        \<and> out ''h2o_tot2'' = Some [Fin 0.8512])
   \<and> abscal_line (q_dep_cal (Fin (- 70)) (Fin 15000) (Fin 1) (Fin 1)) (Fin 2) (Fin 3)
       = Fin (2 * (- 70 - (ln 50000 - ln 15000)) + 3)"
proof -
  have cols: "example_frame ''dD_tot2'' = Some [Fin (- 9999)]"
    "example_frame ''d18O_tot2'' = Some [Fin (- 10)]"
    "example_frame ''h2o_tot2'' = Some [Fin 1]"
    by (simp_all add: example_frame_def)
  have q: "(0::real) < 15000" "(15000::real) < 50000" by simp_all
  have pos: "0 < ln (50000::real) - ln 15000" by simp
  note t = fullcal_qdep_then_abscal [OF cols q, where ps = mako_pars and d = "- 70"
      and a' = 1 and b' = 1 and m' = 2 and k' = 3
      and pic1_q_dep_cal = q_dep_cal and pic1_abs_cal = abscal_line
      and dv = NaN and qv = NaN and a = NaN and b = NaN and m = NaN and k = NaN]
  from t have "\<exists>out. cal16_apply (Some mako_pars) example_frame = Inr out
        \<and> out ''h2o_tot2'' = Some [Fin 0.8512]"
    by (simp add: abscal_line_def mako_pars_def)
  moreover from t pos have "abscal_line (q_dep_cal (Fin (- 70)) (Fin 15000) (Fin 1) (Fin 1)) (Fin 2) (Fin 3)
       = Fin (2 * (- 70 - (ln 50000 - ln 15000)) + 3)"
    by simp
  ultimately show ?thesis by blast
qed

text \<open>The order matters: the swapped composition gives a different value.\<close>

lemma fullcal_order_matters:
  "q_dep_cal (abscal_line (Fin 0) (Fin 2) (Fin 0)) (Fin 1) (Fin 1) (Fin 0)
     \<noteq> abscal_line (q_dep_cal (Fin 0) (Fin 1) (Fin 1) (Fin 0)) (Fin 2) (Fin 0)"
  by (simp add: q_dep_cal_def qdep_correction_def fpow_def fsub_def abscal_line_def)

section \<open>The parameters of the 2016 calibration\<close>

text \<open>
  C5.  For \<^verbatim>\<open>'Mako'\<close> the d18O intercept is \<open>- 1.041851 + 3.5\<close>; every other
  coefficient of \<^verbatim>\<open>'Mako'\<close> is the literal assigned to it, and the coefficients of
  \<^verbatim>\<open>'Gulper'\<close> are its literals and the two offsets derived from the histogram peaks:
  no other coefficient has the fudge factor added.
\<close>

theorem fudge_factor_only_on_mako_k18O:
  "get_pars16 ''Mako'' = Some
     \<lparr>aD = - 0.365, bD = 3.031, a18O = - 0.00581, b18O = 4.961,
      mD = 1.056412, kD = - 5.957469, m18O = 1.051851, k18O = - 1.041851 + 3.5,
      mq = 0.8512, kq = 0\<rparr>
   \<and> get_pars16 ''Gulper'' = Some
     \<lparr>aD = 0.035, bD = 4.456, a18O = 0.06707, b18O = 1.889,
      mD = 1.094037184, kD = - 75 - 1.094037184 * (- 94),
      m18O = 1.06831472, k18O = - 11.5 - 1.06831472 * (- 16.7),
      mq = 0.9085, kq = 0\<rparr>"
  by (simp add: get_pars16_def mako_pars_def gulper_pars_def Let_def)

section \<open>An instrument without parameters\<close>

lemma cal16_apply_None:
  assumes "data ''dD_tot2'' = Some dD" "data ''h2o_tot2'' = Some h2o"
  shows "cal16_apply None data = Inl (UnboundLocalError ''aD'')"
  unfolding cal16_apply_def using assms
  by (simp add: getitem_def ebind_Inr ebind_Inl local_var_None)

lemma cal16_apply_None_fails: "\<exists>e. cal16_apply None data = Inl e"
  unfolding cal16_apply_def
  by (cases "data ''dD_tot2''"; cases "data ''h2o_tot2''")
     (simp_all add: getitem_def ebind_Inr ebind_Inl local_var_None)

lemma cal16_flight_None_fails: "\<exists>e. cal16_flight fs None date = Inl e"
  unfolding cal16_flight_def Let_def read_csv_def using cal16_apply_None_fails
  by (cases "fs (path_timesync_dir @ ''WISPER_'' @ date @ ''_time-sync.ict'')")
     (simp_all add: ebind_Inl ebind_Inr)

lemma get_pars16_unknown: "pic \<noteq> ''Mako'' \<Longrightarrow> pic \<noteq> ''Gulper'' \<Longrightarrow> get_pars16 pic = None"
  by (simp add: get_pars16_def)

lemma replace_missing_example:
  "replace_missing example_frame ''dD_tot2'' = Some [NaN]"
  "replace_missing example_frame ''d18O_tot2'' = Some [Fin (- 10)]"
  "replace_missing example_frame ''h2o_tot2'' = Some [Fin 1]"
  by (simp_all add: replace_missing_def example_frame_def replace_flag_def)

lemma example_store_16:
  "example_store (path_timesync_dir @ ''WISPER_'' @ ''20160830'' @ ''_time-sync.ict'') = Some example_frame"
  by (simp add: example_store_def path_timesync_dir_def)

lemma cal16_flight_example_unknown:
  "cal16_flight example_store None ''20160830'' = Inl (UnboundLocalError ''aD'')"
  unfolding cal16_flight_def Let_def read_csv_def
  by (simp only: example_store_16 option.case ebind_Inr cal16_apply_None [OF replace_missing_example(1,3)])

text \<open>
  C6, as the code has it.  For an instrument name other than \<^verbatim>\<open>'Mako'\<close> and
  \<^verbatim>\<open>'Gulper'\<close> no parameter is bound and none is defaulted.  With no date the call
  returns normally; with at least one date an exception is raised in the first
  flight, after its date is printed and before anything is saved, and it ends the
  call: no later flight is processed.  In every case no output file is written.
\<close>

theorem unknown_instrument_no_output:
  assumes "pic \<noteq> ''Mako''" "pic \<noteq> ''Gulper''"
  shows "pic2_cal16 fs [] pic w = (w, None)
     \<and> (\<exists>e. pic2_cal16 fs (date # dates) pic w = (print_line date w, Some e))
     \<and> written (fst (pic2_cal16 fs ds pic w)) = written w"
proof -
  obtain e where e: "cal16_flight fs None date = Inl e" using cal16_flight_None_fails by blast
  have "written (fst (pic2_cal16 fs ds pic w)) = written w"
  proof (cases ds)
    case Nil
    then show ?thesis by (simp add: pic2_cal16_def)
  next
    case (Cons d ds')
    obtain e' where "cal16_flight fs None d = Inl e'" using cal16_flight_None_fails by blast
    then show ?thesis using Cons assms by (simp add: pic2_cal16_def get_pars16_unknown print_line_def)
  qed
  then show ?thesis using e assms by (simp add: pic2_cal16_def get_pars16_unknown)
qed

theorem unknown_instrument_no_output_witness:
  "pic2_cal16 example_store [] ''Picarro3'' empty_world = (empty_world, None)
   \<and> (\<exists>e. pic2_cal16 example_store [''20160830'', ''20160831''] ''Picarro3'' empty_world
          = (print_line ''20160830'' empty_world, Some e))
   \<and> written (fst (pic2_cal16 example_store [''20160830''] ''Picarro3'' empty_world)) = Map.empty"
proof -
  have "''Picarro3'' \<noteq> ''Mako''" "''Picarro3'' \<noteq> ''Gulper''" by simp_all
  from unknown_instrument_no_output [OF this, of example_store empty_world "''20160830''" "[''20160831'']" "[''20160830'']"]
  show ?thesis by (simp add: empty_world_def)
qed

text \<open>
  C6 as the specification states it, processing of the other flights continues after
  the failure, fails: with two flight files present and the unknown instrument
  \<^verbatim>\<open>'Picarro3'\<close>, the call ends with the unbound variable \<^verbatim>\<open>aD\<close> in the first flight and
  the second date is never printed.
\<close>

theorem unknown_instrument_stops_at_first_flight:
  "pic2_cal16 example_store [''20160830'', ''20160831''] ''Picarro3'' empty_world
     = (\<lparr>printed = [''20160830''], written = Map.empty\<rparr>, Some (UnboundLocalError ''aD''))"
  by (simp add: pic2_cal16_def get_pars16_def cal16_flight_example_unknown print_line_def empty_world_def)

section \<open>The moving average\<close>

lemma drop_take_nth: "b \<le> length xs \<Longrightarrow> drop a (take b xs) = map (\<lambda>j. xs ! j) [a..<b]"
  by (rule nth_equalityI) auto

lemma foldl_fadd_fin:
  "\<forall>v\<in>set vs. is_fin v \<Longrightarrow> foldl fadd (Fin s) vs = Fin (s + sum_list (map the_fin vs))"
proof (induction vs arbitrary: s)
  case Nil
  then show ?case by simp
next
  case (Cons v vs)
  then obtain x where "v = Fin x" by (cases v) auto
  with Cons show ?case by (simp add: add.assoc)
qed

lemma filter_fin: "\<forall>v\<in>set vs. is_fin v \<Longrightarrow> filter (\<lambda>v. v \<noteq> NaN) vs = vs"
  by (rule filter_True) auto

lemma rolling_kernel_length: "length (rolling_kernel w xs) = length xs"
  by (simp add: rolling_kernel_def)

lemma rolling_kernel_nth:
  "i < length xs \<Longrightarrow> rolling_kernel w xs ! i =
     (let ws = drop (i + 1 - w) (take (i + 1) xs); obs = filter (\<lambda>v. v \<noteq> NaN) ws
      in if w \<le> length obs then fdiv_count (foldl fadd (Fin 0) obs) (length obs) else NaN)"
  by (simp add: rolling_kernel_def)

lemma rolling_kernel_head:
  assumes "i < length xs" "i + 1 < w"
  shows "rolling_kernel w xs ! i = NaN"
proof -
  let ?ws = "drop (i + 1 - w) (take (i + 1) xs)"
  have "length (filter (\<lambda>v. v \<noteq> NaN) ?ws) \<le> length ?ws" by (rule length_filter_le)
  also have "length ?ws \<le> i + 1" by simp
  finally have "\<not> w \<le> length (filter (\<lambda>v. v \<noteq> NaN) ?ws)" using assms by simp
  then show ?thesis using assms by (simp add: rolling_kernel_nth Let_def del: One_nat_def)
qed

lemma rolling_kernel_missing:
  assumes "i < length xs" "j \<le> i" "i < j + w" "xs ! j = NaN"
  shows "rolling_kernel w xs ! i = NaN"
proof -
  let ?ws = "drop (i + 1 - w) (take (i + 1) xs)"
  have ws: "?ws = map (\<lambda>j. xs ! j) [i + 1 - w..<i + 1]"
    using assms by (intro drop_take_nth) simp
  have "j \<in> set [i + 1 - w..<i + 1]" using assms by auto
  then have "NaN \<in> set ?ws" unfolding ws using assms(4) by force
  then have "length (filter (\<lambda>v. v \<noteq> NaN) ?ws) < length ?ws"
    by (intro length_filter_less) auto
  also have "length ?ws \<le> w" by auto
  finally have "\<not> w \<le> length (filter (\<lambda>v. v \<noteq> NaN) ?ws)" by simp
  then show ?thesis using assms by (simp add: rolling_kernel_nth Let_def del: One_nat_def)
qed

lemma rolling_kernel_full:
  assumes "i < length xs" "w \<le> i + 1" "0 < w" "\<forall>j\<in>{i + 1 - w..i}. is_fin (xs ! j)"
  shows "rolling_kernel w xs ! i = Fin ((\<Sum>j = i + 1 - w..i. the_fin (xs ! j)) / real w)"
proof -
  let ?ws = "drop (i + 1 - w) (take (i + 1) xs)"
  have ws: "?ws = map (\<lambda>j. xs ! j) [i + 1 - w..<i + 1]"
    using assms by (intro drop_take_nth) simp
  have fin: "\<forall>v\<in>set ?ws. is_fin v" unfolding ws using assms(4) by auto
  have len: "length ?ws = w" using assms by auto
  have obs: "filter (\<lambda>v. v \<noteq> NaN) ?ws = ?ws" using fin by (rule filter_fin)
  have "sum_list (map the_fin ?ws) = (\<Sum>j\<leftarrow>[i + 1 - w..<i + 1]. the_fin (xs ! j))"
    unfolding ws by (simp add: comp_def)
  also have "\<dots> = (\<Sum>j = i + 1 - w..i. the_fin (xs ! j))"
  proof -
    have "{i + 1 - w..<i + 1} = {i + 1 - w..i}" by auto
    then show ?thesis by (simp only: interv_sum_list_conv_sum_set_nat set_upt)
  qed
  finally have s: "foldl fadd (Fin 0) ?ws = Fin (\<Sum>j = i + 1 - w..i. the_fin (xs ! j))"
    using foldl_fadd_fin [OF fin, of 0] by simp
  show ?thesis
    using assms(1) by (simp only: rolling_kernel_nth Let_def obs len s fdiv_count.simps) simp
qed

lemma rolling_mean_length: "length (rolling_mean w xs) = length xs"
  by (simp add: rolling_mean_def rolling_kernel_length)

lemma rolling_mean_head:
  assumes "i < length xs" "i + 1 < w"
  shows "rolling_mean w xs ! i = NaN"
  unfolding rolling_mean_def using assms by (intro rolling_kernel_head) simp_all

lemma rolling_mean_missing:
  assumes "i < length xs" "j \<le> i" "i < j + w" "\<not> is_fin (xs ! j)"
  shows "rolling_mean w xs ! i = NaN"
  unfolding rolling_mean_def using assms
  by (intro rolling_kernel_missing [where j = j]) (simp_all add: inf_to_nan_def)

lemma rolling_mean_full:
  assumes "i < length xs" "w \<le> i + 1" "0 < w" "\<forall>j\<in>{i + 1 - w..i}. is_fin (xs ! j)"
  shows "rolling_mean w xs ! i = Fin ((\<Sum>j = i + 1 - w..i. the_fin (xs ! j)) / real w)"
proof -
  have same: "\<forall>j\<in>{i + 1 - w..i}. map inf_to_nan xs ! j = xs ! j"
    using assms by (auto simp: inf_to_nan_def)
  then have fin: "\<forall>j\<in>{i + 1 - w..i}. is_fin (map inf_to_nan xs ! j)"
    using assms(4) by simp
  have "rolling_kernel w (map inf_to_nan xs) ! i
      = Fin ((\<Sum>j = i + 1 - w..i. the_fin (map inf_to_nan xs ! j)) / real w)"
    using assms(1-3) fin by (intro rolling_kernel_full) simp_all
  also have "(\<Sum>j = i + 1 - w..i. the_fin (map inf_to_nan xs ! j))
      = (\<Sum>j = i + 1 - w..i. the_fin (xs ! j))"
    using same by (intro sum.cong) simp_all
  finally show ?thesis by (simp add: rolling_mean_def)
qed

lemma rolling_mean_10:
  "length (rolling_mean 10 xs) = length xs
   \<and> (\<forall>i<length xs. i < 9 \<longrightarrow> rolling_mean 10 xs ! i = NaN)
   \<and> (\<forall>i<length xs. 9 \<le> i \<and> (\<forall>j\<in>{i - 9..i}. is_fin (xs ! j)) \<longrightarrow>
        rolling_mean 10 xs ! i = Fin ((\<Sum>j = i - 9..i. the_fin (xs ! j)) / 10))"
proof (intro conjI allI impI)
  show "length (rolling_mean 10 xs) = length xs" by (rule rolling_mean_length)
next
  fix i assume "i < length xs" "i < 9"
  then show "rolling_mean 10 xs ! i = NaN" by (intro rolling_mean_head) simp_all
next
  fix i assume i: "i < length xs" and h: "9 \<le> i \<and> (\<forall>j\<in>{i - 9..i}. is_fin (xs ! j))"
  then have "i + 1 - 10 = i - 9" by simp
  with rolling_mean_full [of i xs 10] i h
  show "rolling_mean 10 xs ! i = Fin ((\<Sum>j = i - 9..i. the_fin (xs ! j)) / 10)" by simp
qed

section \<open>The isotope cross-calibration polynomial\<close>

lemma zip_map_Fin:
  "map2 f (map Fin ls) (map Fin ds) = map2 (\<lambda>l d. f (Fin l) (Fin d)) ls ds"
  by (simp add: zip_map_map case_prod_unfold)

lemma cross_poly_fin:
  "sum_terms
     [fmul (Fin c_logq3) (fpow (Fin l) (Fin 3)), fmul (Fin c_logq2) (fpow (Fin l) (Fin 2)),
      fmul (Fin c_logq1) (fpow (Fin l) (Fin 1)), fmul (Fin c_d1) (fpow (Fin d) (Fin 1)),
      fmul (Fin c_d2) (fpow (Fin d) (Fin 2)), fmul (Fin c_d3) (fpow (Fin d) (Fin 3)),
      fmul (Fin c_cross1) (fpow (fmul (Fin d) (Fin l)) (Fin 1)),
      fmul (Fin c_cross2) (fpow (fmul (Fin d) (Fin l)) (Fin 2)),
      fmul (Fin c_cross3) (fpow (fmul (Fin d) (Fin l)) (Fin 3)),
      Fin const]
   = Fin (spec_cross_polynomial c_logq3 c_logq2 c_logq1 c_d1 c_d2 c_d3
            c_cross1 c_cross2 c_cross3 const l d)"
  by (simp add: fpow_fin_1 fpow_fin_2 fpow_fin_3 spec_cross_polynomial_def)

lemma xcal_dD_fin:
  assumes "p ''logq^3'' = Some (Fin c_logq3)" "p ''logq^2'' = Some (Fin c_logq2)"
    "p ''logq^1'' = Some (Fin c_logq1)" "p ''dD^1'' = Some (Fin c_d1)"
    "p ''dD^2'' = Some (Fin c_d2)" "p ''dD^3'' = Some (Fin c_d3)"
    "p ''(dD*logq)^1'' = Some (Fin c_cross1)" "p ''(dD*logq)^2'' = Some (Fin c_cross2)"
    "p ''(dD*logq)^3'' = Some (Fin c_cross3)" "p ''const'' = Some (Fin const)"
  shows "xcal_dD (map Fin logQ) (map Fin delta) p
     = Inr (map2 (\<lambda>l d. Fin (spec_cross_polynomial c_logq3 c_logq2 c_logq1 c_d1 c_d2 c_d3
                               c_cross1 c_cross2 c_cross3 const l d)) logQ delta)"
  unfolding xcal_dD_def using assms
  by (simp only: getitem_Some ebind_Inr zip_map_Fin cross_poly_fin)

lemma xcal_d18O_fin:
  assumes "p ''logq^3'' = Some (Fin c_logq3)" "p ''logq^2'' = Some (Fin c_logq2)"
    "p ''logq^1'' = Some (Fin c_logq1)" "p ''d18O^1'' = Some (Fin c_d1)"
    "p ''d18O^2'' = Some (Fin c_d2)" "p ''d18O^3'' = Some (Fin c_d3)"
    "p ''(d18O*logq)^1'' = Some (Fin c_cross1)" "p ''(d18O*logq)^2'' = Some (Fin c_cross2)"
    "p ''(d18O*logq)^3'' = Some (Fin c_cross3)" "p ''const'' = Some (Fin const)"
  shows "xcal_d18O (map Fin logQ) (map Fin delta) p
     = Inr (map2 (\<lambda>l d. Fin (spec_cross_polynomial c_logq3 c_logq2 c_logq1 c_d1 c_d2 c_d3
                               c_cross1 c_cross2 c_cross3 const l d)) logQ delta)"
  unfolding xcal_d18O_def using assms
  by (simp only: getitem_Some ebind_Inr fpos_def zip_map_Fin cross_poly_fin)

lemma example_dD_keys:
  "the (example_params_dD 2017) ''logq^3'' = Some (Fin 1)"
  "the (example_params_dD 2017) ''logq^2'' = Some (Fin 2)"
  "the (example_params_dD 2017) ''logq^1'' = Some (Fin 3)"
  "the (example_params_dD 2017) ''dD^1'' = Some (Fin 4)"
  "the (example_params_dD 2017) ''dD^2'' = Some (Fin 5)"
  "the (example_params_dD 2017) ''dD^3'' = Some (Fin 6)"
  "the (example_params_dD 2017) ''(dD*logq)^1'' = Some (Fin 7)"
  "the (example_params_dD 2017) ''(dD*logq)^2'' = Some (Fin 8)"
  "the (example_params_dD 2017) ''(dD*logq)^3'' = Some (Fin 9)"
  "the (example_params_dD 2017) ''const'' = Some (Fin 10)"
  by (simp_all add: example_params_dD_def)

lemma example_d18O_keys:
  "the (example_params_d18O 2017) ''logq^3'' = Some (Fin 1)"
  "the (example_params_d18O 2017) ''logq^2'' = Some (Fin 2)"
  "the (example_params_d18O 2017) ''logq^1'' = Some (Fin 3)"
  "the (example_params_d18O 2017) ''d18O^1'' = Some (Fin 4)"
  "the (example_params_d18O 2017) ''d18O^2'' = Some (Fin 5)"
  "the (example_params_d18O 2017) ''d18O^3'' = Some (Fin 6)"
  "the (example_params_d18O 2017) ''(d18O*logq)^1'' = Some (Fin 7)"
  "the (example_params_d18O 2017) ''(d18O*logq)^2'' = Some (Fin 8)"
  "the (example_params_d18O 2017) ''(d18O*logq)^3'' = Some (Fin 9)"
  "the (example_params_d18O 2017) ''const'' = Some (Fin 10)"
  by (simp_all add: example_params_d18O_def)

text \<open>
  C2.  With the ten coefficients present, \<^verbatim>\<open>xcal_dD\<close> and \<^verbatim>\<open>xcal_d18O\<close> return, for
  finite log-humidity and isotope-ratio samples, the ten-term cubic of the
  specification; and on every pair of series, finite or not, the d18O variant with
  its doubled \<^verbatim>\<open>+\<close> returns what the dD variant returns for the same coefficients.
\<close>

theorem xcal_is_ten_term_cubic:
  assumes "p ''logq^3'' = Some (Fin c_logq3)" "p ''logq^2'' = Some (Fin c_logq2)"
    "p ''logq^1'' = Some (Fin c_logq1)" "p ''dD^1'' = Some (Fin c_d1)"
    "p ''dD^2'' = Some (Fin c_d2)" "p ''dD^3'' = Some (Fin c_d3)"
    "p ''(dD*logq)^1'' = Some (Fin c_cross1)" "p ''(dD*logq)^2'' = Some (Fin c_cross2)"
    "p ''(dD*logq)^3'' = Some (Fin c_cross3)" "p ''const'' = Some (Fin const)"
    and "p' ''logq^3'' = Some (Fin c_logq3)" "p' ''logq^2'' = Some (Fin c_logq2)"
    "p' ''logq^1'' = Some (Fin c_logq1)" "p' ''d18O^1'' = Some (Fin c_d1)"
    "p' ''d18O^2'' = Some (Fin c_d2)" "p' ''d18O^3'' = Some (Fin c_d3)"
    "p' ''(d18O*logq)^1'' = Some (Fin c_cross1)" "p' ''(d18O*logq)^2'' = Some (Fin c_cross2)"
    "p' ''(d18O*logq)^3'' = Some (Fin c_cross3)" "p' ''const'' = Some (Fin const)"
  shows "xcal_dD (map Fin logQ) (map Fin delta) p
       = Inr (map2 (\<lambda>l d. Fin (spec_cross_polynomial c_logq3 c_logq2 c_logq1 c_d1 c_d2 c_d3
                                 c_cross1 c_cross2 c_cross3 const l d)) logQ delta)
     \<and> xcal_d18O (map Fin logQ) (map Fin delta) p'
       = Inr (map2 (\<lambda>l d. Fin (spec_cross_polynomial c_logq3 c_logq2 c_logq1 c_d1 c_d2 c_d3
                                 c_cross1 c_cross2 c_cross3 const l d)) logQ delta)
     \<and> xcal_d18O series_logq series_delta p' = xcal_dD series_logq series_delta p"
proof -
  have "xcal_d18O series_logq series_delta p' = xcal_dD series_logq series_delta p"
    unfolding xcal_d18O_def xcal_dD_def using assms
    by (simp only: getitem_Some ebind_Inr fpos_def)
  then show ?thesis
    using xcal_dD_fin [OF assms(1-10)] xcal_d18O_fin [OF assms(11-20)] by simp
qed

theorem xcal_is_ten_term_cubic_witness:
  "xcal_dD [Fin 1] [Fin 2] (the (example_params_dD 2017)) = Inr [Fin 210]
   \<and> xcal_d18O [Fin 1] [Fin 2] (the (example_params_d18O 2017)) = Inr [Fin 210]"
  using xcal_is_ten_term_cubic [OF example_dD_keys example_d18O_keys, of "[1]" "[2]" "[]" "[]"]
  by (simp add: spec_cross_polynomial_def)

section \<open>Missing values in the two pipelines\<close>

lemma replace_flag_missing: "missing_cell v \<Longrightarrow> replace_flag v = NaN"
  by (auto simp: missing_cell_def replace_flag_def)

lemma replace_flag_no_flag: "replace_flag v \<noteq> Fin (- 9999)"
  by (simp add: replace_flag_def)

lemma replace_missing_no_flag:
  "replace_missing raw c = Some col \<Longrightarrow> Fin (- 9999) \<notin> set col"
  using replace_flag_no_flag by (auto simp: replace_missing_def) metis

lemma replace_missing_Some: "raw c = Some col \<Longrightarrow> replace_missing raw c = Some (map replace_flag col)"
  by (simp add: replace_missing_def)

lemma abscal_q_dep_nan:
  "d = NaN \<or> (q = NaN \<and> b \<noteq> Fin 0) \<Longrightarrow> abscal_line (q_dep_cal d q a b) m k = NaN"
  by (auto simp: abscal_line_def q_dep_cal_def qdep_correction_def nan_simps)

lemma abscal_nan: "abscal_line NaN m k = NaN"
  by (simp add: abscal_line_def nan_simps)

lemma get_pars16_exponents:
  "get_pars16 pic = Some ps \<Longrightarrow> bD ps \<noteq> 0 \<and> b18O ps \<noteq> 0"
  by (auto simp: get_pars16_def mako_pars_def gulper_pars_def Let_def split: if_splits)

lemma cal16_flows:
  assumes raw: "raw ''dD_tot2'' = Some dD" "raw ''d18O_tot2'' = Some d18O"
      "raw ''h2o_tot2'' = Some h2o"
    and len: "length dD = length h2o" "length d18O = length h2o" and i: "i < length h2o"
    and out: "cal16_apply (get_pars16 pic) (replace_missing raw) = Inr out"
  shows "flows_as_missing dD d18O h2o i out"
proof -
  obtain ps where ps: "get_pars16 pic = Some ps"
    using out cal16_apply_None_fails [of "replace_missing raw"]
    by (cases "get_pars16 pic") auto
  note b = get_pars16_exponents [OF ps]
  have r: "replace_missing raw ''dD_tot2'' = Some (map replace_flag dD)"
    "replace_missing raw ''d18O_tot2'' = Some (map replace_flag d18O)"
    "replace_missing raw ''h2o_tot2'' = Some (map replace_flag h2o)"
    using raw by (simp_all add: replace_missing_def)
  note o = cal16_apply_Some [OF r, of ps]
  from out o ps have "out = (replace_missing raw)
     (''dD_tot2'' \<mapsto> map2 (\<lambda>d q. abscal_line (q_dep_cal d q (Fin (aD ps)) (Fin (bD ps)))
                                (Fin (mD ps)) (Fin (kD ps))) (map replace_flag dD) (map replace_flag h2o),
      ''d18O_tot2'' \<mapsto> map2 (\<lambda>d q. abscal_line (q_dep_cal d q (Fin (a18O ps)) (Fin (b18O ps)))
                                (Fin (m18O ps)) (Fin (k18O ps))) (map replace_flag d18O) (map replace_flag h2o),
      ''h2o_tot2'' \<mapsto> map (\<lambda>q. abscal_line q (Fin (mq ps)) (Fin (kq ps))) (map replace_flag h2o))"
    by simp
  then show ?thesis
    unfolding flows_as_missing_def using len i b
    by (auto simp: replace_flag_missing abscal_q_dep_nan abscal_nan)
qed

lemma xcal_h2o_nth:
  assumes "xcal_h2o q p = Inr r" "i < length q" "q ! i = NaN"
  shows "r ! i = NaN"
  using assms by (auto simp: xcal_h2o_def ebind_eq_Inr fmul_NaN_right)

lemma xcal_dD_nth:
  assumes "xcal_dD logq dD p = Inr r" "i < length logq" "i < length dD"
    "logq ! i = NaN \<or> dD ! i = NaN"
  shows "r ! i = NaN"
  using assms unfolding xcal_dD_def ebind_eq_Inr
  by (elim exE conjE) (auto simp: nan_simps)

lemma xcal_d18O_nth:
  assumes "xcal_d18O logq d18O p = Inr r" "i < length logq" "i < length d18O"
    "logq ! i = NaN \<or> d18O ! i = NaN"
  shows "r ! i = NaN"
  using assms unfolding xcal_d18O_def ebind_eq_Inr fpos_def
  by (elim exE conjE) (auto simp: nan_simps)

lemma cal1718_apply_Inr:
  assumes "cal1718_apply ph pd po year tp raw = Inr out"
  obtains q dD d18O p_h2o p_dD p_d18O h2o_c dD_c d18O_c where
    "replace_missing raw ''h2o_tot2'' = Some q"
    "replace_missing raw ''dD_tot2'' = Some dD"
    "replace_missing raw ''d18O_tot2'' = Some d18O"
    "ph year = Some p_h2o" "pd year = Some p_dD" "po year = Some p_d18O"
    "xcal_h2o q p_h2o = Inr h2o_c"
    "xcal_dD (map flog q) (rolling_mean 10 dD) p_dD = Inr dD_c"
    "xcal_d18O (map flog q) (rolling_mean 10 d18O) p_d18O = Inr d18O_c"
    "out ''h2o_tot2'' = Some h2o_c" "out ''dD_tot2'' = Some dD_c"
    "out ''d18O_tot2'' = Some d18O_c"
  using assms unfolding cal1718_apply_def Let_def ebind_eq_Inr getitem_eq_Inr loc_eq_Inr
  by (elim exE conjE) auto

lemma rolling_mean_same_row:
  assumes "i < length xs" "xs ! i = NaN"
  shows "rolling_mean 10 xs ! i = NaN"
  using rolling_mean_missing [of i xs i 10] assms by simp

lemma cal1718_flows:
  assumes raw: "raw ''dD_tot2'' = Some dD" "raw ''d18O_tot2'' = Some d18O"
      "raw ''h2o_tot2'' = Some h2o"
    and len: "length dD = length h2o" "length d18O = length h2o" and i: "i < length h2o"
    and out: "cal1718_apply ph pd po year tp raw = Inr out"
  shows "flows_as_missing dD d18O h2o i out"
proof -
  from out obtain q dD' d18O' p_h2o p_dD p_d18O h2o_c dD_c d18O_c where
    c: "replace_missing raw ''h2o_tot2'' = Some q"
    "replace_missing raw ''dD_tot2'' = Some dD'"
    "replace_missing raw ''d18O_tot2'' = Some d18O'"
    and x: "xcal_h2o q p_h2o = Inr h2o_c"
    "xcal_dD (map flog q) (rolling_mean 10 dD') p_dD = Inr dD_c"
    "xcal_d18O (map flog q) (rolling_mean 10 d18O') p_d18O = Inr d18O_c"
    and o: "out ''h2o_tot2'' = Some h2o_c" "out ''dD_tot2'' = Some dD_c"
    "out ''d18O_tot2'' = Some d18O_c"
    by (rule cal1718_apply_Inr)
  from c raw have q: "q = map replace_flag h2o" and d: "dD' = map replace_flag dD"
    and e: "d18O' = map replace_flag d18O"
    by (simp_all add: replace_missing_def)
  have iq: "i < length (map flog q)" "i < length (rolling_mean 10 dD')"
    "i < length (rolling_mean 10 d18O')" "i < length q" "i < length dD'" "i < length d18O'"
    using i len by (simp_all add: q d e rolling_mean_length)
  have hq: "missing_cell (h2o ! i) \<Longrightarrow> q ! i = NaN"
    using i by (simp add: q replace_flag_missing)
  have hl: "missing_cell (h2o ! i) \<Longrightarrow> map flog q ! i = NaN"
    using hq iq(4) by simp
  have hd: "missing_cell (dD ! i) \<Longrightarrow> rolling_mean 10 dD' ! i = NaN"
    using i len iq(5) by (intro rolling_mean_same_row) (simp_all add: d replace_flag_missing)
  have he: "missing_cell (d18O ! i) \<Longrightarrow> rolling_mean 10 d18O' ! i = NaN"
    using i len iq(6) by (intro rolling_mean_same_row) (simp_all add: e replace_flag_missing)
  have 1: "missing_cell (dD ! i) \<or> missing_cell (h2o ! i) \<longrightarrow> dD_c ! i = NaN"
    using xcal_dD_nth [OF x(2) iq(1,2)] hl hd by blast
  have 2: "missing_cell (d18O ! i) \<or> missing_cell (h2o ! i) \<longrightarrow> d18O_c ! i = NaN"
    using xcal_d18O_nth [OF x(3) iq(1,3)] hl he by blast
  have 3: "missing_cell (h2o ! i) \<longrightarrow> h2o_c ! i = NaN"
    using xcal_h2o_nth [OF x(1) iq(4)] hq by blast
  show ?thesis unfolding flows_as_missing_def using o 1 2 3 by blast
qed

subsection \<open>The smoothing of the isotope columns\<close>

lemma xcal_dD_lookup:
  assumes "p ''logq^3'' = Some c_logq3" "p ''logq^2'' = Some c_logq2"
    "p ''logq^1'' = Some c_logq1" "p ''dD^1'' = Some c_d1" "p ''dD^2'' = Some c_d2"
    "p ''dD^3'' = Some c_d3" "p ''(dD*logq)^1'' = Some c_cross1"
    "p ''(dD*logq)^2'' = Some c_cross2" "p ''(dD*logq)^3'' = Some c_cross3"
    "p ''const'' = Some const"
  shows "xcal_dD logq dD p = Inr (map2 (\<lambda>l d. sum_terms
       [fmul c_logq3 (fpow l (Fin 3)), fmul c_logq2 (fpow l (Fin 2)),
        fmul c_logq1 (fpow l (Fin 1)), fmul c_d1 (fpow d (Fin 1)),
        fmul c_d2 (fpow d (Fin 2)), fmul c_d3 (fpow d (Fin 3)),
        fmul c_cross1 (fpow (fmul d l) (Fin 1)),
        fmul c_cross2 (fpow (fmul d l) (Fin 2)),
        fmul c_cross3 (fpow (fmul d l) (Fin 3)),
        const]) logq dD)"
  unfolding xcal_dD_def using assms by (simp only: getitem_def option.case ebind_Inr)

lemma xcal_d18O_lookup:
  assumes "p ''logq^3'' = Some c_logq3" "p ''logq^2'' = Some c_logq2"
    "p ''logq^1'' = Some c_logq1" "p ''d18O^1'' = Some c_d1" "p ''d18O^2'' = Some c_d2"
    "p ''d18O^3'' = Some c_d3" "p ''(d18O*logq)^1'' = Some c_cross1"
    "p ''(d18O*logq)^2'' = Some c_cross2" "p ''(d18O*logq)^3'' = Some c_cross3"
    "p ''const'' = Some const"
  shows "xcal_d18O logq d18O p = Inr (map2 (\<lambda>l d. sum_terms
       [fmul c_logq3 (fpow l (Fin 3)), fmul c_logq2 (fpow l (Fin 2)),
        fmul c_logq1 (fpow l (Fin 1)), fmul c_d1 (fpow d (Fin 1)),
        fmul c_d2 (fpow d (Fin 2)), fmul c_d3 (fpow d (Fin 3)),
        fmul c_cross1 (fpow (fmul d l) (Fin 1)),
        fmul c_cross2 (fpow (fmul d l) (Fin 2)),
        fmul c_cross3 (fpow (fmul d l) (Fin 3)),
        const]) logq d18O)"
  unfolding xcal_d18O_def using assms by (simp only: getitem_def option.case ebind_Inr fpos_def)

lemma cal1718_apply_False:
  assumes "replace_missing raw ''h2o_tot2'' = Some q"
    "replace_missing raw ''dD_tot2'' = Some dD" "replace_missing raw ''d18O_tot2'' = Some d18O"
    "ph year = Some p_h2o" "pd year = Some p_dD" "po year = Some p_d18O"
    "xcal_h2o q p_h2o = Inr h2o_c"
    "xcal_dD (map flog q) (rolling_mean 10 dD) p_dD = Inr dD_c"
    "xcal_d18O (map flog q) (rolling_mean 10 d18O) p_d18O = Inr d18O_c"
  shows "cal1718_apply ph pd po year False raw
     = Inr ((replace_missing raw)
         (''h2o_tot2'' \<mapsto> h2o_c, ''dD_tot2'' \<mapsto> dD_c, ''d18O_tot2'' \<mapsto> d18O_c))"
  unfolding cal1718_apply_def Let_def using assms
  by (simp only: getitem_def loc_def option.case ebind_Inr if_False)

lemma replace_missing_example11:
  "replace_missing example_frame11 ''h2o_tot2'' = Some (replicate 11 (Fin 1))"
  "replace_missing example_frame11 ''dD_tot2'' = Some (replicate 11 (Fin 2))"
  "replace_missing example_frame11 ''d18O_tot2'' = Some (replicate 11 (Fin 2))"
  by (simp_all add: replace_missing_def example_frame11_def replace_flag_def)

lemma example_params_2017:
  "example_params_h2o 2017 = Some [''h2o_tot2'' \<mapsto> Fin 2]"
  "example_params_dD 2017 = Some (the (example_params_dD 2017))"
  "example_params_d18O 2017 = Some (the (example_params_d18O 2017))"
  by (simp_all add: example_params_h2o_def example_params_dD_def example_params_d18O_def)

lemma cal1718_apply_example11:
  "\<exists>out. cal1718_apply example_params_h2o example_params_dD example_params_d18O 2017 False
     example_frame11 = Inr out"
proof -
  have h: "xcal_h2o (replicate 11 (Fin 1)) [''h2o_tot2'' \<mapsto> Fin 2]
      = Inr (map (\<lambda>v. fmul (Fin 2) v) (replicate 11 (Fin 1)))"
    by (simp add: xcal_h2o_def getitem_def ebind_Inr)
  note d = xcal_dD_lookup [OF example_dD_keys]
  note e = xcal_d18O_lookup [OF example_d18O_keys]
  from cal1718_apply_False [where ph = example_params_h2o and pd = example_params_dD
      and po = example_params_d18O and year = 2017,
      OF replace_missing_example11 example_params_2017 h d e]
  show ?thesis by blast
qed

text \<open>
  C3.  The moving average over a window of 10 keeps the length of every series; its
  samples 0 to 8 are missing; and at every index \<open>i \<ge> 9\<close> whose samples \<open>i - 9\<close> to \<open>i\<close>
  are all present (finite), sample \<open>i\<close> is the arithmetic mean of those ten.  It is
  this average of the loaded isotope column that every saved 2017/2018 flight hands
  to the cross-calibration of that isotope, so the first nine rows of the saved
  isotope columns are missing.
\<close>

theorem rolling_mean_window10:
  "(\<forall>xs. length (rolling_mean 10 xs) = length xs
      \<and> (\<forall>i<length xs. i < 9 \<longrightarrow> rolling_mean 10 xs ! i = NaN)
      \<and> (\<forall>i<length xs. 9 \<le> i \<and> (\<forall>j\<in>{i - 9..i}. is_fin (xs ! j)) \<longrightarrow>
           rolling_mean 10 xs ! i = Fin ((\<Sum>j = i - 9..i. the_fin (xs ! j)) / 10)))
   \<and> (\<forall>out. cal1718_apply params_h2o params_dD params_d18O year testplots raw = Inr out \<longrightarrow>
        (\<exists>q dD d18O p_dD p_d18O dD_corrected d18O_corrected.
            replace_missing raw ''h2o_tot2'' = Some q
          \<and> replace_missing raw ''dD_tot2'' = Some dD
          \<and> replace_missing raw ''d18O_tot2'' = Some d18O
          \<and> params_dD year = Some p_dD \<and> params_d18O year = Some p_d18O
          \<and> xcal_dD (map flog q) (rolling_mean 10 dD) p_dD = Inr dD_corrected
          \<and> xcal_d18O (map flog q) (rolling_mean 10 d18O) p_d18O = Inr d18O_corrected
          \<and> out ''dD_tot2'' = Some dD_corrected \<and> out ''d18O_tot2'' = Some d18O_corrected
          \<and> (\<forall>i. i < 9 \<and> i < length q \<and> i < length dD \<longrightarrow> dD_corrected ! i = NaN)
          \<and> (\<forall>i. i < 9 \<and> i < length q \<and> i < length d18O \<longrightarrow> d18O_corrected ! i = NaN)))"
proof (rule conjI, rule allI, rule rolling_mean_10, rule allI, rule impI)
  fix out
  assume "cal1718_apply params_h2o params_dD params_d18O year testplots raw = Inr out"
  then obtain q dD d18O p_h2o p_dD p_d18O h2o_c dD_c d18O_c where
    c: "replace_missing raw ''h2o_tot2'' = Some q"
    "replace_missing raw ''dD_tot2'' = Some dD"
    "replace_missing raw ''d18O_tot2'' = Some d18O"
    and p: "params_dD year = Some p_dD" "params_d18O year = Some p_d18O"
    and x: "xcal_dD (map flog q) (rolling_mean 10 dD) p_dD = Inr dD_c"
    "xcal_d18O (map flog q) (rolling_mean 10 d18O) p_d18O = Inr d18O_c"
    and o: "out ''dD_tot2'' = Some dD_c" "out ''d18O_tot2'' = Some d18O_c"
    by (rule cal1718_apply_Inr)
  have 1: "\<forall>i. i < 9 \<and> i < length q \<and> i < length dD \<longrightarrow> dD_c ! i = NaN"
  proof (intro allI impI)
    fix i assume i: "i < 9 \<and> i < length q \<and> i < length dD"
    then have "rolling_mean 10 dD ! i = NaN" by (intro rolling_mean_head) simp_all
    with i show "dD_c ! i = NaN"
      by (intro xcal_dD_nth [OF x(1)]) (simp_all add: rolling_mean_length)
  qed
  have 2: "\<forall>i. i < 9 \<and> i < length q \<and> i < length d18O \<longrightarrow> d18O_c ! i = NaN"
  proof (intro allI impI)
    fix i assume i: "i < 9 \<and> i < length q \<and> i < length d18O"
    then have "rolling_mean 10 d18O ! i = NaN" by (intro rolling_mean_head) simp_all
    with i show "d18O_c ! i = NaN"
      by (intro xcal_d18O_nth [OF x(2)]) (simp_all add: rolling_mean_length)
  qed
  from c p x o 1 2
  show "\<exists>q dD d18O p_dD p_d18O dD_corrected d18O_corrected.
            replace_missing raw ''h2o_tot2'' = Some q
          \<and> replace_missing raw ''dD_tot2'' = Some dD
          \<and> replace_missing raw ''d18O_tot2'' = Some d18O
          \<and> params_dD year = Some p_dD \<and> params_d18O year = Some p_d18O
          \<and> xcal_dD (map flog q) (rolling_mean 10 dD) p_dD = Inr dD_corrected
          \<and> xcal_d18O (map flog q) (rolling_mean 10 d18O) p_d18O = Inr d18O_corrected
          \<and> out ''dD_tot2'' = Some dD_corrected \<and> out ''d18O_tot2'' = Some d18O_corrected
          \<and> (\<forall>i. i < 9 \<and> i < length q \<and> i < length dD \<longrightarrow> dD_corrected ! i = NaN)
          \<and> (\<forall>i. i < 9 \<and> i < length q \<and> i < length d18O \<longrightarrow> d18O_corrected ! i = NaN)"
    by blast
qed

theorem rolling_mean_window10_witness:
  "\<exists>out dD_corrected.
      cal1718_apply example_params_h2o example_params_dD example_params_d18O 2017 False
        example_frame11 = Inr out
    \<and> out ''dD_tot2'' = Some dD_corrected
    \<and> dD_corrected ! 4 = NaN \<and> dD_corrected ! 10 = Fin 86"
proof -
  obtain out where run: "cal1718_apply example_params_h2o example_params_dD
      example_params_d18O 2017 False example_frame11 = Inr out"
    using cal1718_apply_example11 by blast
  note t = rolling_mean_window10 [where params_h2o = example_params_h2o
      and params_dD = example_params_dD and params_d18O = example_params_d18O
      and year = 2017 and testplots = False and raw = example_frame11]
  let ?dD = "replicate 11 (Fin 2)"
  let ?q = "replicate 11 (Fin 1)"
  note link = t [THEN conjunct2, rule_format, OF run]
  note avg = t [THEN conjunct1, rule_format, of ?dD]
  from link obtain q dD p_dD dD_c where
    c: "replace_missing example_frame11 ''h2o_tot2'' = Some q"
       "replace_missing example_frame11 ''dD_tot2'' = Some dD"
    and p: "example_params_dD 2017 = Some p_dD"
    and x: "xcal_dD (map flog q) (rolling_mean 10 dD) p_dD = Inr dD_c"
    and o: "out ''dD_tot2'' = Some dD_c"
    and h: "\<forall>i. i < 9 \<and> i < length q \<and> i < length dD \<longrightarrow> dD_c ! i = NaN"
    by blast
  from c have q: "q = ?q" and d: "dD = ?dD" by (simp_all add: replace_missing_example11)
  from p have pd: "p_dD = the (example_params_dD 2017)" by simp
  from h have a: "dD_c ! 4 = NaN" by (simp add: q d)
  from avg have "\<forall>i<length ?dD. 9 \<le> i \<and> (\<forall>j\<in>{i - 9..i}. is_fin (?dD ! j)) \<longrightarrow>
           rolling_mean 10 ?dD ! i = Fin ((\<Sum>j = i - 9..i. the_fin (?dD ! j)) / 10)"
    by (elim conjE)
  then have "(10::nat) < length ?dD \<longrightarrow> 9 \<le> (10::nat) \<and> (\<forall>j\<in>{10 - 9..10}. is_fin (?dD ! j)) \<longrightarrow>
           rolling_mean 10 ?dD ! 10 = Fin ((\<Sum>j = 10 - 9..10. the_fin (?dD ! j)) / 10)"
    by (rule spec)
  moreover have "\<forall>j\<in>{10 - 9..10}. is_fin (?dD ! j)" by simp
  ultimately have m: "rolling_mean 10 ?dD ! 10 = Fin ((\<Sum>j = 1..10. the_fin (?dD ! j)) / 10)"
    by simp
  have "(\<Sum>j = 1..10. the_fin (?dD ! j)) = (\<Sum>j = (1::nat)..10. 2)"
    by (intro sum.cong) simp_all
  then have s: "(\<Sum>j = 1..10. the_fin (?dD ! j)) = 20" by simp
  have m2: "rolling_mean 10 ?dD ! 10 = Fin 2" unfolding m s by simp
  have len: "length (rolling_mean 10 ?dD) = 11" by (simp add: rolling_mean_length)
  from x have "dD_c = map2 (\<lambda>l d. sum_terms
       [fmul (Fin 1) (fpow l (Fin 3)), fmul (Fin 2) (fpow l (Fin 2)),
        fmul (Fin 3) (fpow l (Fin 1)), fmul (Fin 4) (fpow d (Fin 1)),
        fmul (Fin 5) (fpow d (Fin 2)), fmul (Fin 6) (fpow d (Fin 3)),
        fmul (Fin 7) (fpow (fmul d l) (Fin 1)),
        fmul (Fin 8) (fpow (fmul d l) (Fin 2)),
        fmul (Fin 9) (fpow (fmul d l) (Fin 3)),
        Fin 10]) (map flog ?q) (rolling_mean 10 ?dD)"
    unfolding q d pd xcal_dD_lookup [OF example_dD_keys] by simp
  then have "dD_c ! 10 = sum_terms
       [fmul (Fin 1) (fpow (Fin 0) (Fin 3)), fmul (Fin 2) (fpow (Fin 0) (Fin 2)),
        fmul (Fin 3) (fpow (Fin 0) (Fin 1)), fmul (Fin 4) (fpow (Fin 2) (Fin 1)),
        fmul (Fin 5) (fpow (Fin 2) (Fin 2)), fmul (Fin 6) (fpow (Fin 2) (Fin 3)),
        fmul (Fin 7) (fpow (fmul (Fin 2) (Fin 0)) (Fin 1)),
        fmul (Fin 8) (fpow (fmul (Fin 2) (Fin 0)) (Fin 2)),
        fmul (Fin 9) (fpow (fmul (Fin 2) (Fin 0)) (Fin 3)),
        Fin 10]"
    using len m2 by simp
  then have b: "dD_c ! 10 = Fin 86"
    by (simp add: fpow_fin_1 fpow_fin_2 fpow_fin_3)
  from run o a b show ?thesis by blast
qed

subsection \<open>The example flights\<close>

lemma example_store_1718:
  "example_store (path_pic1cal_dir @ ''WISPER_'' @ ''20170815'' @ ''_pic1-cal.ict'') = Some example_frame"
  by (simp add: example_store_def path_pic1cal_dir_def)

lemma rolling_example: "rolling_mean 10 [v] = [NaN]"
  by (simp add: rolling_mean_def rolling_kernel_def)

lemma xcal_dD_example:
  "xcal_dD [Fin 0] [NaN] (the (example_params_dD 2017)) = Inr [NaN]"
  unfolding xcal_dD_def
  by (simp only: getitem_def example_dD_keys option.case ebind_Inr)
     (simp add: nan_simps)

lemma xcal_d18O_example:
  "xcal_d18O [Fin 0] [NaN] (the (example_params_d18O 2017)) = Inr [NaN]"
  unfolding xcal_d18O_def
  by (simp only: getitem_def example_d18O_keys option.case ebind_Inr)
     (simp add: nan_simps fpos_def)

lemma example_tables:
  "loc example_params_h2o 2017 = Inr [''h2o_tot2'' \<mapsto> Fin 2]"
  "loc example_params_dD 2017 = Inr (the (example_params_dD 2017))"
  "loc example_params_d18O 2017 = Inr (the (example_params_d18O 2017))"
  by (simp_all add: loc_def example_params_h2o_def example_params_dD_def example_params_d18O_def)

lemma cal1718_apply_example:
  "cal1718_apply example_params_h2o example_params_dD example_params_d18O 2017 False
     example_frame
   = Inr ((replace_missing example_frame)
       (''h2o_tot2'' \<mapsto> [Fin 2], ''dD_tot2'' \<mapsto> [NaN], ''d18O_tot2'' \<mapsto> [NaN]))"
  unfolding cal1718_apply_def Let_def
  by (simp only: getitem_def replace_missing_example option.case
      example_tables ebind_Inr rolling_example list.map flog.simps xcal_dD_example
      xcal_d18O_example if_False)
     (simp add: xcal_h2o_def getitem_def ebind_Inr xcal_dD_example xcal_d18O_example)

lemma cal16_flight_example:
  "\<exists>out. cal16_flight example_store (get_pars16 ''Mako'') ''20160830'' = Inr out"
proof -
  have p: "get_pars16 ''Mako'' = Some mako_pars" by (simp add: get_pars16_def)
  show ?thesis
    unfolding cal16_flight_def Let_def read_csv_def p
    by (simp only: example_store_16 option.case ebind_Inr
        cal16_apply_Some [OF replace_missing_example]) blast
qed

subsection \<open>Missing values flow through\<close>

text \<open>
  C4.  For a loaded flight file with the three Pic2 columns: after the replacement no
  cell of the frame holds the flag \<open>- 9999\<close>, and in both pipelines, 2016 and
  2017/2018, every row whose loaded cell is the flag or not-a-number is not-a-number
  in the saved corrected column: no value is substituted for it.
\<close>

theorem missing_values_flow_through:
  assumes "raw ''dD_tot2'' = Some dD" "raw ''d18O_tot2'' = Some d18O"
      "raw ''h2o_tot2'' = Some h2o"
    and "length dD = length h2o" "length d18O = length h2o" and "i < length h2o"
  shows "(\<forall>c col. replace_missing raw c = Some col \<longrightarrow> Fin (- 9999) \<notin> set col)
     \<and> (\<forall>out. fs (path_timesync_dir @ ''WISPER_'' @ date @ ''_time-sync.ict'') = Some raw
              \<and> cal16_flight fs (get_pars16 pic) date = Inr out
            \<longrightarrow> flows_as_missing dD d18O h2o i out)
     \<and> (\<forall>out. fs (path_pic1cal_dir @ ''WISPER_'' @ date @ ''_pic1-cal.ict'') = Some raw
              \<and> cal1718_flight fs params_h2o params_dD params_d18O year testplots date = Inr out
            \<longrightarrow> flows_as_missing dD d18O h2o i out)"
proof (intro conjI allI impI)
  fix c col assume "replace_missing raw c = Some col"
  then show "Fin (- 9999) \<notin> set col" by (rule replace_missing_no_flag)
next
  fix out
  assume "fs (path_timesync_dir @ ''WISPER_'' @ date @ ''_time-sync.ict'') = Some raw
              \<and> cal16_flight fs (get_pars16 pic) date = Inr out"
  then have "cal16_apply (get_pars16 pic) (replace_missing raw) = Inr out"
    by (elim conjE) (simp add: cal16_flight_def read_csv_def ebind_Inr Let_def)
  then show "flows_as_missing dD d18O h2o i out" by (rule cal16_flows [OF assms])
next
  fix out
  assume "fs (path_pic1cal_dir @ ''WISPER_'' @ date @ ''_pic1-cal.ict'') = Some raw
              \<and> cal1718_flight fs params_h2o params_dD params_d18O year testplots date = Inr out"
  then have "cal1718_apply params_h2o params_dD params_d18O year testplots raw = Inr out"
    by (elim conjE) (simp add: cal1718_flight_def read_csv_def ebind_Inr Let_def)
  then show "flows_as_missing dD d18O h2o i out" by (rule cal1718_flows [OF assms])
qed


theorem missing_values_flow_through_witness:
  "(\<exists>out. cal16_flight example_store (get_pars16 ''Mako'') ''20160830'' = Inr out
        \<and> flows_as_missing [Fin (- 9999)] [Fin (- 10)] [Fin 1] 0 out
        \<and> the (out ''dD_tot2'') ! 0 = NaN)
   \<and> (\<exists>out. cal1718_flight example_store example_params_h2o example_params_dD
             example_params_d18O 2017 False ''20170815'' = Inr out
        \<and> flows_as_missing [Fin (- 9999)] [Fin (- 10)] [Fin 1] 0 out
        \<and> the (out ''dD_tot2'') ! 0 = NaN)"
proof -
  have cols: "example_frame ''dD_tot2'' = Some [Fin (- 9999)]"
    "example_frame ''d18O_tot2'' = Some [Fin (- 10)]"
    "example_frame ''h2o_tot2'' = Some [Fin 1]"
    by (simp_all add: example_frame_def)
  have len: "length [Fin (- 9999)] = length [Fin 1]" "length [Fin (- 10)] = length [Fin 1]"
    "0 < length [Fin 1]" by simp_all
  note t = missing_values_flow_through [OF cols len]
  obtain out16 where o16: "cal16_flight example_store (get_pars16 ''Mako'') ''20160830'' = Inr out16"
    using cal16_flight_example by blast
  from t [where fs = example_store and date = "''20160830''" and pic = "''Mako''"]
    example_store_16 o16
  have f16: "flows_as_missing [Fin (- 9999)] [Fin (- 10)] [Fin 1] 0 out16" by blast
  then have d16: "the (out16 ''dD_tot2'') ! 0 = NaN"
    unfolding flows_as_missing_def by (auto simp: missing_cell_def)
  have o17: "cal1718_flight example_store example_params_h2o example_params_dD
             example_params_d18O 2017 False ''20170815''
        = Inr ((replace_missing example_frame)
            (''h2o_tot2'' \<mapsto> [Fin 2], ''dD_tot2'' \<mapsto> [NaN], ''d18O_tot2'' \<mapsto> [NaN]))"
    unfolding cal1718_flight_def Let_def read_csv_def
    by (simp only: example_store_1718 option.case ebind_Inr cal1718_apply_example)
  from t [where fs = example_store and date = "''20170815''"] example_store_1718 o17
  have f17: "flows_as_missing [Fin (- 9999)] [Fin (- 10)] [Fin 1] 0
      ((replace_missing example_frame)
            (''h2o_tot2'' \<mapsto> [Fin 2], ''dD_tot2'' \<mapsto> [NaN], ''d18O_tot2'' \<mapsto> [NaN]))"
    by blast
  show ?thesis using o16 f16 d16 o17 f17 by simp
qed

section \<open>The humidity read by the isotope cross-calibrations\<close>

text \<open>
  C10.  In a 2017/2018 flight that is saved, both isotope cross-calibrations are
  evaluated on the logarithm of the loaded Pic2 humidity column (after the
  replacement of the flag, before any cross-calibration) and on the smoothed loaded
  isotope columns; the cross-calibrated humidity only fills the saved humidity
  column.  Hence the saved isotope columns do not depend on the humidity
  cross-calibration table.
\<close>

theorem isotope_xcal_reads_raw_humidity:
  assumes "cal1718_apply params_h2o params_dD params_d18O year testplots raw = Inr out"
  shows "(\<exists>q dD d18O p_h2o p_dD p_d18O h2o_corrected dD_corrected d18O_corrected.
        replace_missing raw ''h2o_tot2'' = Some q
      \<and> replace_missing raw ''dD_tot2'' = Some dD
      \<and> replace_missing raw ''d18O_tot2'' = Some d18O
      \<and> params_h2o year = Some p_h2o \<and> params_dD year = Some p_dD
      \<and> params_d18O year = Some p_d18O
      \<and> xcal_h2o q p_h2o = Inr h2o_corrected
      \<and> xcal_dD (map flog q) (rolling_mean 10 dD) p_dD = Inr dD_corrected
      \<and> xcal_d18O (map flog q) (rolling_mean 10 d18O) p_d18O = Inr d18O_corrected
      \<and> out ''h2o_tot2'' = Some h2o_corrected \<and> out ''dD_tot2'' = Some dD_corrected
      \<and> out ''d18O_tot2'' = Some d18O_corrected)
    \<and> (\<forall>params_h2o' out'.
          cal1718_apply params_h2o' params_dD params_d18O year testplots raw = Inr out'
          \<longrightarrow> out' ''dD_tot2'' = out ''dD_tot2'' \<and> out' ''d18O_tot2'' = out ''d18O_tot2'')"
proof (intro conjI allI impI)
  show "\<exists>q dD d18O p_h2o p_dD p_d18O h2o_corrected dD_corrected d18O_corrected.
        replace_missing raw ''h2o_tot2'' = Some q
      \<and> replace_missing raw ''dD_tot2'' = Some dD
      \<and> replace_missing raw ''d18O_tot2'' = Some d18O
      \<and> params_h2o year = Some p_h2o \<and> params_dD year = Some p_dD
      \<and> params_d18O year = Some p_d18O
      \<and> xcal_h2o q p_h2o = Inr h2o_corrected
      \<and> xcal_dD (map flog q) (rolling_mean 10 dD) p_dD = Inr dD_corrected
      \<and> xcal_d18O (map flog q) (rolling_mean 10 d18O) p_d18O = Inr d18O_corrected
      \<and> out ''h2o_tot2'' = Some h2o_corrected \<and> out ''dD_tot2'' = Some dD_corrected
      \<and> out ''d18O_tot2'' = Some d18O_corrected"
    by (rule cal1718_apply_Inr [OF assms]) blast
next
  fix params_h2o' out'
  assume a': "cal1718_apply params_h2o' params_dD params_d18O year testplots raw = Inr out'"
  show "out' ''dD_tot2'' = out ''dD_tot2''"
    by (rule cal1718_apply_Inr [OF assms], rule cal1718_apply_Inr [OF a']) simp
  show "out' ''d18O_tot2'' = out ''d18O_tot2''"
    by (rule cal1718_apply_Inr [OF assms], rule cal1718_apply_Inr [OF a']) simp
qed

theorem isotope_xcal_reads_raw_humidity_witness:
  "cal1718_apply example_params_h2o example_params_dD example_params_d18O 2017 False
     example_frame
   = Inr ((replace_missing example_frame)
       (''h2o_tot2'' \<mapsto> [Fin 2], ''dD_tot2'' \<mapsto> [NaN], ''d18O_tot2'' \<mapsto> [NaN]))
   \<and> (\<exists>q p_dD dD_corrected.
        replace_missing example_frame ''h2o_tot2'' = Some q \<and> q = [Fin 1]
      \<and> example_params_dD 2017 = Some p_dD
      \<and> xcal_dD (map flog q) (rolling_mean 10 [NaN]) p_dD = Inr dD_corrected)"
proof -
  note e = cal1718_apply_example
  from isotope_xcal_reads_raw_humidity [OF e]
  have "\<exists>q dD p_dD dD_corrected.
        replace_missing example_frame ''h2o_tot2'' = Some q
      \<and> replace_missing example_frame ''dD_tot2'' = Some dD
      \<and> example_params_dD 2017 = Some p_dD
      \<and> xcal_dD (map flog q) (rolling_mean 10 dD) p_dD = Inr dD_corrected"
    by blast
  then have "\<exists>q p_dD dD_corrected.
        replace_missing example_frame ''h2o_tot2'' = Some q \<and> q = [Fin 1]
      \<and> example_params_dD 2017 = Some p_dD
      \<and> xcal_dD (map flog q) (rolling_mean 10 [NaN]) p_dD = Inr dD_corrected"
    by (auto simp: replace_missing_example)
  with e show ?thesis by blast
qed

section \<open>The Monte Carlo runs\<close>

text \<open>
  The grid of \<^verbatim>\<open>np.linspace\<close>: \<open>num\<close> points from \<open>start\<close> to \<open>stop\<close>, both included.
\<close>

lemma linspace_length: "length (linspace a b n) = n"
  by (simp add: linspace_def)

lemma linspace_nth: "i < n \<Longrightarrow> linspace a b n ! i = a + real i * ((b - a) / real (n - 1))"
  by (simp add: linspace_def)

lemma linspace_first: "0 < n \<Longrightarrow> linspace a b n ! 0 = a"
  by (simp add: linspace_nth)

lemma linspace_last: "1 < n \<Longrightarrow> linspace a b n ! (n - 1) = b"
  by (simp add: linspace_nth)

lemma linspace_bounds:
  assumes "a \<le> b" "1 < n" "x \<in> set (linspace a b n)"
  shows "a \<le> x \<and> x \<le> b"
proof -
  define step where "step = (b - a) / real (n - 1)"
  from assms(3) obtain i where i: "i < n" and x: "x = a + real i * step"
    by (auto simp: linspace_def step_def)
  have step: "0 \<le> step" using assms by (simp add: step_def)
  have full: "real (n - 1) * step = b - a" using assms by (simp add: step_def)
  have lo: "0 \<le> real i * step" using step by simp
  have "real i \<le> real (n - 1)" using i by simp
  then have "real i * step \<le> real (n - 1) * step" using step by (rule mult_right_mono)
  then have hi: "real i * step \<le> b - a" using full by simp
  from lo hi show ?thesis unfolding x by simp
qed

text \<open>
  The run of \<^verbatim>\<open>wisper_uncertainties_with_fit\<close> hands the sampler the dD grid, humidity
  1500 to 22000 in 100 steps by dD - 300 to - 60 in 150 steps, and 6000 trials.
\<close>

lemma wisper_uncertainties_with_fit_mc_call:
  "wisper_uncertainties_with_fit_mc mc_normalsampler qdc ac (ps, sig_ps)
   = mc_normalsampler (pic1_isoratio_fullcal qdc ac)
       [map (\<lambda>y. map (\<lambda>x. Fin y) (linspace 1500 22000 100)) (linspace (- 300) (- 60) 150),
        map (\<lambda>y. map Fin (linspace 1500 22000 100)) (linspace (- 300) (- 60) 150)]
       ps sig_ps 6000 None (Some True)"
  by (simp add: wisper_uncertainties_with_fit_mc_def wisper_uncertainties_MC_def meshgrid_def)

text \<open>
  C8 fails on \<^verbatim>\<open>sigma_with_fit_dD\<close> and \<^verbatim>\<open>sigma_with_fit_d18O\<close>: whatever their
  arguments, the call of the sampler is never made, because its first argument
  \<^verbatim>\<open>pic1_isoratio_fullcal\<close> is an unbound name there.  No trial is drawn and no grid
  is evaluated by these two functions.
\<close>

theorem sigma_with_fit_mc_raises_NameError:
  "sigma_with_fit_dD_mc mc_normalsampler dD_precision_pic1 ps sig_ps sig_inputvars
     = Inl (NameError ''pic1_isoratio_fullcal'')
   \<and> sigma_with_fit_d18O_mc mc_normalsampler d18O_precision_pic1 ps sig_ps sig_inputvars
     = Inl (NameError ''pic1_isoratio_fullcal'')"
  by (simp add: sigma_with_fit_dD_mc_def sigma_with_fit_d18O_mc_def unbound_name_def
      ebind_Inl Let_def split: prod.splits)

section \<open>The surrogate fit\<close>

lemma predictor_row_length: "length (predictor_row l d) = 6"
  by (simp add: predictor_row_def)

lemma predictor_row_fin:
  "0 < x \<Longrightarrow> predictor_row (flog (Fin x)) (Fin dv)
     = [Fin 1, Fin (ln x), Fin ((ln x) ^ 2), Fin ((ln x) ^ 3), Fin ((ln x) ^ 4), Fin dv]"
  by (simp add: predictor_row_def fpow_fin_2 fpow_fin_3 fpow_fin_4)

lemma predictor_row_zero_humidity:
  "predictor_row (flog (Fin 0)) d = [Fin 1, NInf, PInf, NInf, PInf, d]"
  by (simp add: predictor_row_def fpow_def is_odd_integral_def is_integral_def)

lemma fmax_no_nan: "a \<noteq> NaN \<Longrightarrow> b \<noteq> NaN \<Longrightarrow> fmax a b \<noteq> NaN"
  by (cases a; cases b) simp_all

lemma fmax_PInf: "a \<noteq> NaN \<Longrightarrow> b \<noteq> NaN \<Longrightarrow> fmax a b = PInf \<longleftrightarrow> a = PInf \<or> b = PInf"
  by (cases a; cases b) simp_all

text \<open>
  Over rows of one length without not-a-number, the column maxima have that length,
  hold no not-a-number, and are plus infinity exactly in the columns that hold it.
\<close>

lemma foldl_fmax:
  assumes "length m = n" "NaN \<notin> set m"
    "\<forall>row \<in> set rows. length row = n \<and> NaN \<notin> set row"
  shows "length (foldl (map2 fmax) m rows) = n
     \<and> NaN \<notin> set (foldl (map2 fmax) m rows)
     \<and> (\<forall>j<n. foldl (map2 fmax) m rows ! j = PInf
            \<longleftrightarrow> m ! j = PInf \<or> (\<exists>row \<in> set rows. row ! j = PInf))"
  using assms
proof (induction rows arbitrary: m)
  case Nil
  then show ?case by simp
next
  case (Cons row rows)
  let ?m = "map2 fmax m row"
  have row: "length row = n" "NaN \<notin> set row" using Cons.prems by simp_all
  have len: "length ?m = n" using Cons.prems row by simp
  have nth: "\<And>j. j < n \<Longrightarrow> ?m ! j = fmax (m ! j) (row ! j)"
    using Cons.prems row by simp
  have mj: "\<And>j. j < n \<Longrightarrow> m ! j \<noteq> NaN \<and> row ! j \<noteq> NaN"
    using Cons.prems row by (metis nth_mem)
  have nonan: "NaN \<notin> set ?m"
  proof
    assume "NaN \<in> set ?m"
    then obtain j where "j < length ?m" "?m ! j = NaN" by (auto simp: in_set_conv_nth)
    then show False using len nth mj fmax_no_nan by metis
  qed
  have rest: "\<forall>r \<in> set rows. length r = n \<and> NaN \<notin> set r" using Cons.prems by simp
  from Cons.IH [OF len nonan rest]
  have ih: "length (foldl (map2 fmax) ?m rows) = n"
    "NaN \<notin> set (foldl (map2 fmax) ?m rows)"
    "\<forall>j<n. foldl (map2 fmax) ?m rows ! j = PInf
        \<longleftrightarrow> ?m ! j = PInf \<or> (\<exists>r \<in> set rows. r ! j = PInf)"
    by simp_all
  have "\<forall>j<n. foldl (map2 fmax) ?m rows ! j = PInf
        \<longleftrightarrow> m ! j = PInf \<or> (\<exists>r \<in> set (row # rows). r ! j = PInf)"
  proof (intro allI impI)
    fix j assume j: "j < n"
    have "?m ! j = PInf \<longleftrightarrow> m ! j = PInf \<or> row ! j = PInf"
      using nth [OF j] mj [OF j] fmax_PInf by simp
    with ih(3) j show "foldl (map2 fmax) ?m rows ! j = PInf
        \<longleftrightarrow> m ! j = PInf \<or> (\<exists>r \<in> set (row # rows). r ! j = PInf)"
      by auto
  qed
  with ih(1,2) show ?case by simp
qed

lemma exog_max_PInf:
  assumes "\<forall>row \<in> set exog. length row = n \<and> NaN \<notin> set row"
    "row \<in> set exog" "j < n" "row ! j = PInf"
  shows "\<exists>maxima. exog_max exog = Inr maxima \<and> \<not> list_all is_fin maxima"
proof -
  from assms(2) obtain r rs where e: "exog = r # rs" by (cases exog) auto
  have r: "length r = n" "NaN \<notin> set r" and rs: "\<forall>x \<in> set rs. length x = n \<and> NaN \<notin> set x"
    using assms(1) e by simp_all
  let ?m = "foldl (map2 fmax) r rs"
  note f = foldl_fmax [OF r rs]
  have "r ! j = PInf \<or> (\<exists>x \<in> set rs. x ! j = PInf)" using assms(2,4) e by auto
  then have "?m ! j = PInf" using f assms(3) by blast
  moreover have "j < length ?m" using f assms(3) by simp
  ultimately have "PInf \<in> set ?m" by (metis nth_mem)
  then have "\<not> list_all is_fin ?m" unfolding list_all_iff by (rule_tac notI) force
  then show ?thesis by (simp add: exog_max_def e)
qed

lemma drop_missing_rows:
  "\<forall>(y, xs) \<in> set (drop_missing (zip sig_d (map2 predictor_row logq d))).
      length xs = 6 \<and> y \<noteq> NaN \<and> NaN \<notin> set xs"
  by (auto simp: drop_missing_def predictor_row_length dest!: set_zip_rightD)

lemma drop_missing_keeps:
  assumes "length d = length q" "length sig_d = length q" "i < length q"
    "sig_d ! i \<noteq> NaN" "NaN \<notin> set (predictor_row (flog (q ! i)) (d ! i))"
  shows "(sig_d ! i, predictor_row (flog (q ! i)) (d ! i))
     \<in> set (drop_missing (zip sig_d (map2 predictor_row (map flog q) d)))"
proof -
  let ?rows = "zip sig_d (map2 predictor_row (map flog q) d)"
  have "?rows ! i = (sig_d ! i, predictor_row (flog (q ! i)) (d ! i))"
    using assms by simp
  moreover have "i < length ?rows" using assms by simp
  ultimately have "(sig_d ! i, predictor_row (flog (q ! i)) (d ! i)) \<in> set ?rows"
    by (metis nth_mem)
  then show ?thesis using assms(4,5) by (simp add: drop_missing_def)
qed

lemma fit_poly_unfold:
  assumes "length d = length q" "length sig_d = length q"
  shows "fit_poly ols q d sig_d
     = (let kept = drop_missing (zip sig_d (map2 predictor_row (map flog q) d)) in
        case exog_max (map snd kept) of
          Inl e \<Rightarrow> Inl e
        | Inr maxima \<Rightarrow>
            if \<not> list_all is_fin maxima then Inl MissingDataError
            else (case ols (map fst kept) (map snd kept) of
                    Inl e \<Rightarrow> Inl e
                  | Inr fit \<Rightarrow> Inr (params fit, [np_round2 (rsquared fit)])))"
  using assms by (auto simp: fit_poly_def ebind_def Let_def split: sum.splits)

lemma fit_poly_zero_humidity:
  assumes len: "length d = length q" "length sig_d = length q"
    and i: "i < length q" "q ! i = Fin 0" "sig_d ! i \<noteq> NaN" "d ! i \<noteq> NaN"
  shows "fit_poly ols q d sig_d = Inl MissingDataError"
proof -
  let ?kept = "drop_missing (zip sig_d (map2 predictor_row (map flog q) d))"
  let ?row = "[Fin 1, NInf, PInf, NInf, PInf, d ! i]"
  have row: "predictor_row (flog (q ! i)) (d ! i) = ?row"
    using i(2) by (simp only: predictor_row_zero_humidity)
  have "NaN \<notin> set (predictor_row (flog (q ! i)) (d ! i))" unfolding row using i(4) by auto
  from drop_missing_keeps [OF len i(1,3) this]
  have "(sig_d ! i, ?row) \<in> set ?kept" unfolding row .
  then have mem: "?row \<in> set (map snd ?kept)" by force
  have all: "\<forall>r \<in> set (map snd ?kept). length r = 6 \<and> NaN \<notin> set r"
    using drop_missing_rows [of sig_d "map flog q" d] by auto
  have "(2::nat) < 6" "?row ! 2 = PInf" by simp_all
  from exog_max_PInf [OF all mem this]
  obtain maxima where "exog_max (map snd ?kept) = Inr maxima" "\<not> list_all is_fin maxima"
    by blast
  then show ?thesis by (simp add: fit_poly_unfold [OF len] Let_def)
qed

lemma fit_poly_length:
  assumes len: "length d = length q" "length sig_d = length q"
    and c: "one_coefficient_per_column ols"
    and r: "fit_poly ols q d sig_d = Inr (ps, pr)"
  shows "length ps = 6"
proof -
  let ?kept = "drop_missing (zip sig_d (map2 predictor_row (map flog q) d))"
  from r obtain maxima fit where m: "exog_max (map snd ?kept) = Inr maxima"
    and f: "ols (map fst ?kept) (map snd ?kept) = Inr fit" and ps: "ps = params fit"
    unfolding fit_poly_unfold [OF len] Let_def
    by (auto split: sum.splits if_splits)
  from m have ne: "map snd ?kept \<noteq> []"
    by (cases "map snd ?kept") (auto simp: exog_max_def)
  have all: "\<forall>row \<in> set (map snd ?kept). length row = 6"
    using drop_missing_rows [of sig_d "map flog q" d] by auto
  from c f ne all have "length (params fit) = 6"
    unfolding one_coefficient_per_column_def by blast
  then show ?thesis using ps by simp
qed

text \<open>
  C9, as the code has it.  \<^verbatim>\<open>fit_poly\<close> regresses the standard deviations on rows of
  exactly six predictors, the constant 1, \<open>ln q\<close> and its powers 2, 3 and 4, and the
  isotope ratio.  The rows that hold a not-a-number are dropped, and only those: a
  row holding an infinite value stays, and a row of humidity 0, whose \<open>ln q\<close> is
  minus infinity, makes the fit raise \<^verbatim>\<open>MissingDataError\<close>.  When the fit returns,
  the value returned is its vector of 6 coefficients and the line printed is its
  rounded coefficient of determination, whatever that is: no threshold is applied.
\<close>

theorem fit_poly_six_predictors:
  assumes "length d = length q" "length sig_d = length q"
    and "one_coefficient_per_column ols"
  shows "\<exists>kept. kept = drop_missing (zip sig_d (map2 predictor_row (map flog q) d))
     \<and> fit_poly ols q d sig_d
         = (case exog_max (map snd kept) of
              Inl e \<Rightarrow> Inl e
            | Inr maxima \<Rightarrow>
                if \<not> list_all is_fin maxima then Inl MissingDataError
                else (case ols (map fst kept) (map snd kept) of
                        Inl e \<Rightarrow> Inl e
                      | Inr fit \<Rightarrow> Inr (params fit, [np_round2 (rsquared fit)])))
     \<and> (\<forall>(y, xs) \<in> set kept. length xs = 6 \<and> y \<noteq> NaN \<and> NaN \<notin> set xs)
     \<and> (\<forall>i<length q. sig_d ! i \<noteq> NaN \<and> NaN \<notin> set (predictor_row (flog (q ! i)) (d ! i))
           \<longrightarrow> (sig_d ! i, predictor_row (flog (q ! i)) (d ! i)) \<in> set kept)
     \<and> (\<forall>x dv. 0 < x \<longrightarrow> predictor_row (flog (Fin x)) (Fin dv)
           = [Fin 1, Fin (ln x), Fin ((ln x) ^ 2), Fin ((ln x) ^ 3), Fin ((ln x) ^ 4), Fin dv])
     \<and> (\<forall>ps pr. fit_poly ols q d sig_d = Inr (ps, pr) \<longrightarrow> length ps = 6)
     \<and> (\<forall>i<length q. q ! i = Fin 0 \<and> sig_d ! i \<noteq> NaN \<and> d ! i \<noteq> NaN
           \<longrightarrow> fit_poly ols q d sig_d = Inl MissingDataError)"
proof -
  let ?kept = "drop_missing (zip sig_d (map2 predictor_row (map flog q) d))"
  note len = assms(1,2)
  have 1: "fit_poly ols q d sig_d
         = (case exog_max (map snd ?kept) of
              Inl e \<Rightarrow> Inl e
            | Inr maxima \<Rightarrow>
                if \<not> list_all is_fin maxima then Inl MissingDataError
                else (case ols (map fst ?kept) (map snd ?kept) of
                        Inl e \<Rightarrow> Inl e
                      | Inr fit \<Rightarrow> Inr (params fit, [np_round2 (rsquared fit)])))"
    using fit_poly_unfold [OF len] by (simp add: Let_def)
  have 2: "\<forall>(y, xs) \<in> set ?kept. length xs = 6 \<and> y \<noteq> NaN \<and> NaN \<notin> set xs"
    by (rule drop_missing_rows)
  have 3: "\<forall>i<length q. sig_d ! i \<noteq> NaN \<and> NaN \<notin> set (predictor_row (flog (q ! i)) (d ! i))
           \<longrightarrow> (sig_d ! i, predictor_row (flog (q ! i)) (d ! i)) \<in> set ?kept"
    using drop_missing_keeps [OF len] by blast
  have 4: "\<forall>x dv. 0 < x \<longrightarrow> predictor_row (flog (Fin x)) (Fin dv)
           = [Fin 1, Fin (ln x), Fin ((ln x) ^ 2), Fin ((ln x) ^ 3), Fin ((ln x) ^ 4), Fin dv]"
    using predictor_row_fin by blast
  have 5: "\<forall>ps pr. fit_poly ols q d sig_d = Inr (ps, pr) \<longrightarrow> length ps = 6"
    using fit_poly_length [OF len assms(3)] by blast
  have 6: "\<forall>i<length q. q ! i = Fin 0 \<and> sig_d ! i \<noteq> NaN \<and> d ! i \<noteq> NaN
           \<longrightarrow> fit_poly ols q d sig_d = Inl MissingDataError"
    using fit_poly_zero_humidity [OF len] by blast
  from 1 2 3 4 5 6 show ?thesis by (intro exI [of _ ?kept] conjI) (rule refl)
qed

theorem fit_poly_six_predictors_witness:
  "one_coefficient_per_column first_row_ols
   \<and> fit_poly first_row_ols [Fin 1, Fin (- 1)] [Fin (- 70), Fin (- 80)] [Fin 2, Fin 3]
       = Inr ([Fin 1, Fin 0, Fin 0, Fin 0, Fin 0, Fin (- 70)], [Fin 1])
   \<and> fit_poly first_row_ols [Fin 1, Fin 0] [Fin (- 70), Fin (- 80)] [Fin 2, Fin 3]
       = Inl MissingDataError"
proof -
  have c: "one_coefficient_per_column first_row_ols"
    unfolding one_coefficient_per_column_def first_row_ols_def
    by (auto split: list.splits)
  have len: "length [Fin (- 70), Fin (- 80)] = length [Fin 1, Fin (- 1)]"
    "length [Fin 2, Fin 3] = length [Fin 1, Fin (- 1)]" by simp_all
  have len': "length [Fin (- 70), Fin (- 80)] = length [Fin 1, Fin 0]"
    "length [Fin 2, Fin 3] = length [Fin 1, Fin 0]" by simp_all
  let ?kept = "drop_missing (zip [Fin 2, Fin 3]
      (map2 predictor_row (map flog [Fin 1, Fin (- 1)]) [Fin (- 70), Fin (- 80)]))"
  have k: "?kept = [(Fin 2, [Fin 1, Fin 0, Fin 0, Fin 0, Fin 0, Fin (- 70)])]"
    by (simp add: drop_missing_def predictor_row_def fpow_fin_2 fpow_fin_3 fpow_fin_4
        nan_simps)
  from fit_poly_six_predictors [OF len c]
  have "fit_poly first_row_ols [Fin 1, Fin (- 1)] [Fin (- 70), Fin (- 80)] [Fin 2, Fin 3]
         = (case exog_max (map snd ?kept) of
              Inl e \<Rightarrow> Inl e
            | Inr maxima \<Rightarrow>
                if \<not> list_all is_fin maxima then Inl MissingDataError
                else (case first_row_ols (map fst ?kept) (map snd ?kept) of
                        Inl e \<Rightarrow> Inl e
                      | Inr fit \<Rightarrow> Inr (params fit, [np_round2 (rsquared fit)])))"
    by blast
  then have a: "fit_poly first_row_ols [Fin 1, Fin (- 1)] [Fin (- 70), Fin (- 80)] [Fin 2, Fin 3]
       = Inr ([Fin 1, Fin 0, Fin 0, Fin 0, Fin 0, Fin (- 70)], [Fin 1])"
    unfolding k by (simp add: exog_max_def first_row_ols_def round_half_even_def)
  from fit_poly_six_predictors [OF len' c]
  have "\<forall>i<length [Fin 1, Fin (0::real)].
      [Fin 1, Fin 0] ! i = Fin 0 \<and> [Fin 2, Fin 3] ! i \<noteq> NaN
        \<and> [Fin (- 70), Fin (- 80)] ! i \<noteq> NaN
      \<longrightarrow> fit_poly first_row_ols [Fin 1, Fin 0] [Fin (- 70), Fin (- 80)] [Fin 2, Fin 3]
            = Inl MissingDataError"
    by (elim exE conjE)
  then have "1 < length [Fin 1, Fin (0::real)] \<longrightarrow>
      [Fin 1, Fin 0] ! 1 = Fin 0 \<and> [Fin 2, Fin 3] ! 1 \<noteq> NaN
        \<and> [Fin (- 70), Fin (- 80)] ! 1 \<noteq> NaN
      \<longrightarrow> fit_poly first_row_ols [Fin 1, Fin 0] [Fin (- 70), Fin (- 80)] [Fin 2, Fin 3]
            = Inl MissingDataError"
    by (rule spec)
  then have b: "fit_poly first_row_ols [Fin 1, Fin 0] [Fin (- 70), Fin (- 80)] [Fin 2, Fin 3]
       = Inl MissingDataError"
    by simp
  from c a b show ?thesis by blast
qed

text \<open>
  C9 as the specification states it, rows with non-finite values are dropped before
  fitting and a coefficient vector is returned, fails: a humidity of 0 gives the
  logarithm minus infinity, the row is not dropped, and the fit raises
  \<^verbatim>\<open>MissingDataError\<close> instead of fitting the other row.
\<close>

theorem fit_poly_raises_on_infinite_row:
  "fit_poly first_row_ols [Fin 0] [Fin (- 70)] [Fin 2] = Inl MissingDataError
   \<and> fit_poly first_row_ols [Fin 0, Fin 1] [Fin (- 70), Fin (- 80)] [Fin 2, Fin 3]
       = Inl MissingDataError"
proof -
  have "fit_poly first_row_ols [Fin 0] [Fin (- 70)] [Fin 2] = Inl MissingDataError"
    by (rule fit_poly_zero_humidity [where i = 0]) simp_all
  moreover have "fit_poly first_row_ols [Fin 0, Fin 1] [Fin (- 70), Fin (- 80)] [Fin 2, Fin 3]
       = Inl MissingDataError"
    by (rule fit_poly_zero_humidity [where i = 0]) simp_all
  ultimately show ?thesis by blast
qed

end
